theory Spec2Isabelle
  imports Complex_Main "HOL-Library.Word" "HOL-Library.Sublist"
begin

section \<open>JavaScript values as the chat script uses them\<close>

text \<open>
  The script \<^verbatim>\<open>script.js\<close> is dynamically typed: whatever \<^verbatim>\<open>JSON.parse\<close> returns is
  assigned to the conversation or inspected as the reply. Values are therefore modelled
  as one datatype, strings as sequences of UTF-16 code units, and every exception the
  script can raise as a value of \<open>js_error\<close>.
\<close>

type_synonym jsstring = "16 word list"

definition asc :: "string \<Rightarrow> jsstring" where
  \<comment> \<open>the code units of an ASCII literal\<close>
  "asc s = map of_char s"

datatype jsnum = Num rat | PosInfinity | NegInfinity | NaN

datatype jsval =
    JUndefined
  | JNull
  | JBool bool
  | JNum jsnum
  | JStr jsstring
  | JArr "jsval list"
  | JObj "(jsstring \<times> jsval) list"

datatype js_error =
    TypeError jsstring
  | SyntaxError jsstring
  | ReferenceError jsstring
  | Error jsstring
  | DOMException jsstring

fun instanceof_TypeError :: "js_error \<Rightarrow> bool" where
  "instanceof_TypeError (TypeError _) = True"
| "instanceof_TypeError _ = False"

fun message :: "js_error \<Rightarrow> jsstring" where
  "message (TypeError m) = m"
| "message (SyntaxError m) = m"
| "message (ReferenceError m) = m"
| "message (Error m) = m"
| "message (DOMException m) = m"

fun nullish :: "jsval \<Rightarrow> bool" where
  "nullish JUndefined = True"
| "nullish JNull = True"
| "nullish _ = False"

fun truthy :: "jsval \<Rightarrow> bool" where
  "truthy JUndefined = False"
| "truthy JNull = False"
| "truthy (JBool b) = b"
| "truthy (JNum (Num q)) = (q \<noteq> 0)"
| "truthy (JNum NaN) = False"
| "truthy (JNum _) = True"
| "truthy (JStr s) = (s \<noteq> [])"
| "truthy (JArr _) = True"
| "truthy (JObj _) = True"

text \<open>
  Property reads. \<open>get_prop v k\<close> is \<^verbatim>\<open>v.k\<close> for the names the script reads (\<^verbatim>\<open>role\<close>,
  \<^verbatim>\<open>choices\<close>, \<^verbatim>\<open>message\<close>, \<^verbatim>\<open>delta\<close>, \<^verbatim>\<open>content\<close>, \<^verbatim>\<open>text\<close>, \<^verbatim>\<open>body\<close>, \<^verbatim>\<open>error\<close>): none of
  them is defined on a built-in prototype, so only an object can have them, a primitive
  or an array yields \<^verbatim>\<open>undefined\<close>, and \<^verbatim>\<open>null\<close> and \<^verbatim>\<open>undefined\<close> raise a TypeError.
  An object is the list of its own properties, first binding wins.
  \<open>prop_length\<close> is \<^verbatim>\<open>v.length\<close> and \<open>elem0\<close> is \<^verbatim>\<open>v[0]\<close>, which strings and arrays
  have too.
\<close>

definition cannot_read :: "jsstring \<Rightarrow> js_error" where
  "cannot_read k = TypeError (asc ''Cannot read properties of null or undefined: '' @ k)"

fun get_prop :: "jsval \<Rightarrow> jsstring \<Rightarrow> js_error + jsval" where
  "get_prop JUndefined k = Inl (cannot_read k)"
| "get_prop JNull k = Inl (cannot_read k)"
| "get_prop (JObj kvs) k = Inr (case map_of kvs k of None \<Rightarrow> JUndefined | Some v \<Rightarrow> v)"
| "get_prop _ k = Inr JUndefined"

fun prop_length :: "jsval \<Rightarrow> js_error + jsval" where
  "prop_length (JStr s) = Inr (JNum (Num (of_nat (length s))))"
| "prop_length (JArr xs) = Inr (JNum (Num (of_nat (length xs))))"
| "prop_length v = get_prop v (asc ''length'')"

fun elem0 :: "jsval \<Rightarrow> js_error + jsval" where
  "elem0 (JStr s) = Inr (case s of [] \<Rightarrow> JUndefined | c # _ \<Rightarrow> JStr [c])"
| "elem0 (JArr xs) = Inr (case xs of [] \<Rightarrow> JUndefined | x # _ \<Rightarrow> x)"
| "elem0 v = get_prop v (asc ''0'')"

definition opt_prop :: "jsval \<Rightarrow> jsstring \<Rightarrow> jsval" where
  \<comment> \<open>optional chaining \<^verbatim>\<open>v?.k\<close>: never raises\<close>
  "opt_prop v k = (case get_prop v k of Inl _ \<Rightarrow> JUndefined | Inr r \<Rightarrow> r)"

definition opt_elem0 :: "jsval \<Rightarrow> jsval" where
  \<comment> \<open>\<^verbatim>\<open>v?.[0]\<close>\<close>
  "opt_elem0 v = (case elem0 v of Inl _ \<Rightarrow> JUndefined | Inr r \<Rightarrow> r)"

definition coalesce :: "jsval \<Rightarrow> jsval \<Rightarrow> jsval" where
  \<comment> \<open>\<^verbatim>\<open>a ?? b\<close>\<close>
  "coalesce a b = (if nullish a then b else a)"

section \<open>Messages and the conversation\<close>

definition mk_message :: "jsstring \<Rightarrow> jsval \<Rightarrow> jsval" where
  \<comment> \<open>the object literal \<^verbatim>\<open>{ role: r, content: c }\<close>\<close>
  "mk_message r c = JObj [(asc ''role'', JStr r), (asc ''content'', c)]"

definition MAX_CONVERSATION_MESSAGES :: nat where
  "MAX_CONVERSATION_MESSAGES = 40"

fun role_is_system :: "jsval \<Rightarrow> js_error + bool" where
  \<comment> \<open>the callback \<^verbatim>\<open>(m) => m.role === "system"\<close>\<close>
  "role_is_system m =
     (case get_prop m (asc ''role'') of
        Inl e \<Rightarrow> Inl e
      | Inr r \<Rightarrow> Inr (r = JStr (asc ''system'')))"

fun find_system :: "jsval list \<Rightarrow> js_error + jsval" where
  \<comment> \<open>\<^verbatim>\<open>conversation.find((m) => m.role === "system")\<close>: stops at the first hit\<close>
  "find_system [] = Inr JUndefined"
| "find_system (m # ms) =
     (case role_is_system m of
        Inl e \<Rightarrow> Inl e
      | Inr True \<Rightarrow> Inr m
      | Inr False \<Rightarrow> find_system ms)"

fun filter_others :: "jsval list \<Rightarrow> js_error + jsval list" where
  \<comment> \<open>\<^verbatim>\<open>conversation.filter((m) => m.role !== "system")\<close>: visits every element\<close>
  "filter_others [] = Inr []"
| "filter_others (m # ms) =
     (case role_is_system m of
        Inl e \<Rightarrow> Inl e
      | Inr b \<Rightarrow>
          (case filter_others ms of
             Inl e \<Rightarrow> Inl e
           | Inr r \<Rightarrow> Inr (if b then r else m # r)))"

definition slice_last :: "nat \<Rightarrow> 'a list \<Rightarrow> 'a list" where
  \<comment> \<open>\<^verbatim>\<open>xs.slice(-n)\<close> for \<open>n > 0\<close>: starts at \<open>max (length xs - n) 0\<close>\<close>
  "slice_last n xs = drop (length xs - n) xs"

definition trimConversation :: "jsval list \<Rightarrow> js_error + jsval list" where
  "trimConversation conversation =
     (case find_system conversation of
        Inl e \<Rightarrow> Inl e
      | Inr sys \<Rightarrow>
          (case filter_others conversation of
             Inl e \<Rightarrow> Inl e
           | Inr others \<Rightarrow>
               (let trimmed = slice_last MAX_CONVERSATION_MESSAGES others
                in Inr (sys # trimmed))))"

text \<open>Specification-side vocabulary: what it means for a value to be a message with a role.\<close>

definition has_role :: "jsstring \<Rightarrow> jsval \<Rightarrow> bool" where
  "has_role r m = (get_prop m (asc ''role'') = Inr (JStr r))"

definition is_system :: "jsval \<Rightarrow> bool" where
  "is_system m = has_role (asc ''system'') m"

definition readable :: "jsval \<Rightarrow> bool" where
  \<comment> \<open>a value whose properties can be read: anything but \<^verbatim>\<open>null\<close> and \<^verbatim>\<open>undefined\<close>\<close>
  "readable m = (\<not> nullish m)"

definition non_system :: "jsval list \<Rightarrow> jsval list" where
  "non_system conv = filter (\<lambda>m. \<not> is_system m) conv"

section \<open>Strings: whitespace, trimming and the name pattern\<close>

definition is_ws :: "16 word \<Rightarrow> bool" where
  \<comment> \<open>ECMAScript WhiteSpace and LineTerminator: what \<^verbatim>\<open>trim()\<close> strips and \<^verbatim>\<open>\s\<close> matches\<close>
  "is_ws c = (c \<in> {0x9, 0xA, 0xB, 0xC, 0xD, 0x20, 0xA0, 0x1680, 0x2028, 0x2029,
                    0x202F, 0x205F, 0x3000, 0xFEFF} \<or> (0x2000 \<le> c \<and> c \<le> 0x200A))"

definition js_trim :: "jsstring \<Rightarrow> jsstring" where
  "js_trim s = rev (dropWhile is_ws (rev (dropWhile is_ws s)))"

definition is_upper :: "16 word \<Rightarrow> bool" where
  "is_upper c = (0x41 \<le> c \<and> c \<le> 0x5A)"

definition is_lower :: "16 word \<Rightarrow> bool" where
  "is_lower c = (0x61 \<le> c \<and> c \<le> 0x7A)"

definition canon :: "16 word \<Rightarrow> 16 word" where
  \<comment> \<open>the canonical form the \<^verbatim>\<open>i\<close> flag compares (no \<^verbatim>\<open>u\<close> flag): upper case, and a
      code unit outside ASCII never becomes an ASCII one\<close>
  "canon c = (if is_lower c then c - 0x20 else c)"

definition is_letter :: "16 word \<Rightarrow> bool" where
  \<comment> \<open>\<^verbatim>\<open>[A-Z]\<close> under the \<^verbatim>\<open>i\<close> flag\<close>
  "is_letter c = is_upper (canon c)"

definition is_name_char :: "16 word \<Rightarrow> bool" where
  \<comment> \<open>\<^verbatim>\<open>[a-zA-Z\-']\<close> under the \<^verbatim>\<open>i\<close> flag\<close>
  "is_name_char c = (is_letter c \<or> c = 0x2D \<or> c = 0x27)"

fun strip_prefix_ci :: "jsstring \<Rightarrow> jsstring \<Rightarrow> jsstring option" where
  \<comment> \<open>a literal of the pattern matched at the start of the text; the rest of the text\<close>
  "strip_prefix_ci [] s = Some s"
| "strip_prefix_ci (p # ps) [] = None"
| "strip_prefix_ci (p # ps) (c # cs) =
     (if canon p = canon c then strip_prefix_ci ps cs else None)"

definition name_after :: "jsstring \<Rightarrow> jsstring option" where
  \<comment> \<open>\<^verbatim>\<open>\s+([A-Z][a-zA-Z\-']{1,30})\<close> at the start of the text. Both quantifiers are greedy;
      giving whitespace back cannot help (a letter would have to be whitespace), and
      nothing follows the group, so the longest run of at most 30 is the match.\<close>
  "name_after r =
     (if takeWhile is_ws r = [] then None
      else (case dropWhile is_ws r of
              [] \<Rightarrow> None
            | c # cs \<Rightarrow>
                if is_letter c then
                  (let t = take 30 (takeWhile is_name_char cs)
                   in if t = [] then None else Some (c # t))
                else None))"

fun first_alternative :: "jsstring list \<Rightarrow> jsstring \<Rightarrow> jsstring option" where
  \<comment> \<open>the alternatives of \<^verbatim>\<open>(?:my name is|i am|i'm)\<close> in order, each followed by the rest of
      the pattern\<close>
  "first_alternative [] s = None"
| "first_alternative (k # ks) s =
     (case strip_prefix_ci k s of
        None \<Rightarrow> first_alternative ks s
      | Some r \<Rightarrow>
          (case name_after r of
             None \<Rightarrow> first_alternative ks s
           | Some n \<Rightarrow> Some n))"

definition match_here :: "jsstring \<Rightarrow> jsstring option" where
  "match_here s = first_alternative [asc ''my name is'', asc ''i am'', asc ''i'm''] s"

fun match_name :: "jsstring \<Rightarrow> jsstring option" where
  \<comment> \<open>\<^verbatim>\<open>text.match(/(?:my name is|i am|i'm)\s+([A-Z][a-zA-Z\-']{1,30})/i)\<close>: group 1 of the
      leftmost match, \<open>None\<close> for \<^verbatim>\<open>null\<close>\<close>
  "match_name [] = match_here []"
| "match_name (c # cs) =
     (case match_here (c # cs) of
        Some n \<Rightarrow> Some n
      | None \<Rightarrow> match_name cs)"

fun contains_ci :: "jsstring \<Rightarrow> jsstring \<Rightarrow> bool" where
  \<comment> \<open>\<^verbatim>\<open>/lit/i.test(s)\<close> for a literal pattern\<close>
  "contains_ci lit [] = (strip_prefix_ci lit [] \<noteq> None)"
| "contains_ci lit (c # cs) = (strip_prefix_ci lit (c # cs) \<noteq> None \<or> contains_ci lit cs)"

fun replaceAll :: "16 word \<Rightarrow> jsstring \<Rightarrow> jsstring \<Rightarrow> jsstring" where
  \<comment> \<open>\<^verbatim>\<open>s.replaceAll(c, r)\<close> for a pattern of one code unit\<close>
  "replaceAll c r [] = []"
| "replaceAll c r (x # xs) = (if x = c then r @ replaceAll c r xs else x # replaceAll c r xs)"

definition escapeHtml :: "jsstring \<Rightarrow> jsstring" where
  "escapeHtml str =
     replaceAll 0x27 (asc ''&#39;'')
       (replaceAll 0x22 (asc ''&quot;'')
         (replaceAll 0x3E (asc ''&gt;'')
           (replaceAll 0x3C (asc ''&lt;'')
             (replaceAll 0x26 (asc ''&amp;'') str))))"

fun decimal :: "nat \<Rightarrow> jsstring" where
  \<comment> \<open>how a template literal prints a non-negative integer\<close>
  "decimal n = (if n < 10 then [0x30 + of_nat n]
                else decimal (n div 10) @ [0x30 + of_nat (n mod 10)])"

section \<open>The platform: built-ins, storage, page and network\<close>

text \<open>
  The built-ins the script calls and does not define are parameters of the model:
  \<^verbatim>\<open>JSON.parse\<close> (which raises on text that is not JSON), \<^verbatim>\<open>JSON.stringify\<close>, and the
  conversions to string and to number of a value that is not one already (which raise
  on an object whose \<^verbatim>\<open>toString\<close> and \<^verbatim>\<open>valueOf\<close> are not callable). Every theorem holds
  for every platform.
\<close>

record platform =
  JSON_parse :: "jsstring \<Rightarrow> js_error + jsval"
  JSON_stringify :: "jsval \<Rightarrow> jsstring"
  ToString :: "jsval \<Rightarrow> js_error + jsstring"
  ToNumber :: "jsval \<Rightarrow> js_error + jsnum"

definition to_string :: "platform \<Rightarrow> jsval \<Rightarrow> js_error + jsstring" where
  "to_string pf v = (case v of JStr s \<Rightarrow> Inr s | _ \<Rightarrow> ToString pf v)"

definition to_number :: "platform \<Rightarrow> jsval \<Rightarrow> js_error + jsnum" where
  "to_number pf v = (case v of JNum n \<Rightarrow> Inr n | _ \<Rightarrow> ToNumber pf v)"

fun positive :: "jsnum \<Rightarrow> bool" where
  "positive (Num q) = (0 < q)"
| "positive PosInfinity = True"
| "positive _ = False"

definition gt_zero :: "platform \<Rightarrow> jsval \<Rightarrow> js_error + bool" where
  \<comment> \<open>\<^verbatim>\<open>v > 0\<close>\<close>
  "gt_zero pf v = (case to_number pf v of Inl e \<Rightarrow> Inl e | Inr n \<Rightarrow> Inr (positive n))"

text \<open>
  \<^verbatim>\<open>localStorage\<close>: the stored items, and whether a read or a write raises (storage
  disabled, quota exceeded). The script swallows both.
\<close>

record web_storage =
  items :: "jsstring \<rightharpoonup> jsstring"
  read_failure :: "js_error option"
  write_failure :: "jsstring \<Rightarrow> jsstring \<Rightarrow> js_error option"

definition getItem :: "web_storage \<Rightarrow> jsstring \<Rightarrow> js_error + jsstring option" where
  "getItem ls k = (case read_failure ls of Some e \<Rightarrow> Inl e | None \<Rightarrow> Inr (items ls k))"

definition setItem :: "web_storage \<Rightarrow> jsstring \<Rightarrow> jsstring \<Rightarrow> js_error + web_storage" where
  "setItem ls k v =
     (case write_failure ls k v of
        Some e \<Rightarrow> Inl e
      | None \<Rightarrow> Inr (ls\<lparr>items := (items ls)(k \<mapsto> v)\<rparr>))"

definition STORAGE_KEYS_conversation :: jsstring where
  "STORAGE_KEYS_conversation = asc ''loreal_chat_conversation''"

definition STORAGE_KEYS_userName :: jsstring where
  "STORAGE_KEYS_userName = asc ''loreal_chat_userName''"

text \<open>The page: the children of the chat window, and the optional elements the script guards.\<close>

datatype node = TextNode jsstring | Div (className: jsstring) (innerHTML: jsstring)

record button =
  disabled :: bool
  opacity :: jsstring

text \<open>A request handed to \<^verbatim>\<open>fetch\<close> (always a POST), and what comes back.\<close>

record request =
  url :: jsstring
  headers :: "(jsstring \<times> jsstring) list"
  body :: jsstring

record response =
  res_ok :: bool
  res_status :: nat
  res_text :: "js_error + jsstring"
  res_json :: "js_error + jsval"

type_synonym fetch = "request \<Rightarrow> js_error + response"

text \<open>
  The two globals of \<^verbatim>\<open>secrets.js\<close>, which is not part of the sources: \<open>None\<close> is a
  global that is not defined.
\<close>

record secrets =
  cfWorkerUrl :: "jsstring option"
  apiKey :: "jsstring option"

record session =
  conversation :: "jsval list"
  userName :: jsstring
  localStorage :: web_storage
  chatWindow :: "node list"
  latestQuestionEl :: "jsstring option"
  userInput :: jsstring
  sendBtn :: "button option"
  network :: "request list"

section \<open>The operations of the script\<close>

text \<open>
  Each function of the script is a function on the session. A function that can raise
  returns a sum, or the session where it stopped together with the error. The handler
  and the remote call are asynchronous in the script; they are modelled run to their end,
  one turn at a time, as the disabled send button intends. Console output, scrolling
  and \<^verbatim>\<open>preventDefault\<close> leave no trace in the session and are left out.
\<close>

definition systemPrompt :: jsstring where
  \<open>systemPrompt =
     asc ''You are the L'Or'' @
     [0xE9] @
     asc ''al Smart Product Advisor. Only answer questions about L'Or'' @
     [0xE9] @
     asc ''al brands, products, skincare and haircare routines, and product recom'' @
     asc ''mendations from L'Or'' @
     [0xE9] @
     asc ''al. If a user asks about topics outside this scope (including other br'' @
     asc ''ands, general medical/legal advice, politics, or unrelated topics), po'' @
     asc ''litely refuse with a short, friendly message such as: "I'm sorry '' @
     [0x2014] @
     asc '' I can only help with L'Or'' @
     [0xE9] @
     asc ''al products and beauty routines. If you'd like, I can suggest L'Or'' @
     [0xE9] @
     asc ''al alternatives or product recommendations." After refusing, always of'' @
     asc ''fer a helpful L'Or'' @
     [0xE9] @
     asc ''al-focused alternative or redirect. Provide concise, factual product s'' @
     asc ''uggestions, recommended usage, ingredient considerations relevant to s'' @
     asc ''kin/hair type, and note regional availability when relevant. Do not in'' @
     asc ''vent endorsements, medical diagnoses, or claim regulatory approvals. K'' @
     asc ''eep tone professional, helpful, and brand-consistent.''\<close>

definition system_message :: jsval where
  "system_message = mk_message (asc ''system'') (JStr systemPrompt)"

definition initial_conversation :: "jsval list" where
  \<comment> \<open>\<^verbatim>\<open>let conversation = [{ role: "system", content: systemPrompt }]\<close>\<close>
  "initial_conversation = [system_message]"

definition appendMessage :: "jsstring \<Rightarrow> jsval \<Rightarrow> session \<Rightarrow> js_error + session" where
  \<comment> \<open>\<^verbatim>\<open>escapeHtml\<close> calls \<^verbatim>\<open>replaceAll\<close> on its argument, which only a string has\<close>
  "appendMessage role text st =
     (case text of
        JStr s \<Rightarrow>
          Inr (st\<lparr>chatWindow := chatWindow st @
                 [Div (asc ''msg '' @ role) (replaceAll 0xA (asc ''<br>'') (escapeHtml s))]\<rparr>)
      | _ \<Rightarrow> Inl (TypeError (asc ''str.replaceAll is not a function'')))"

definition write_items :: "platform \<Rightarrow> jsval list \<Rightarrow> jsstring \<Rightarrow> web_storage \<Rightarrow> web_storage" where
  \<comment> \<open>the body of \<open>saveState\<close>, which touches nothing but the storage: two writes, and the
      \<^verbatim>\<open>catch\<close> (each \<open>Inl\<close>) keeps what was written before the failure\<close>
  "write_items pf conv name ls =
     (case setItem ls STORAGE_KEYS_conversation (JSON_stringify pf (JArr conv)) of
        Inl e \<Rightarrow> ls
      | Inr ls1 \<Rightarrow>
          (case setItem ls1 STORAGE_KEYS_userName (if name \<noteq> [] then name else []) of
             Inl e \<Rightarrow> ls1
           | Inr ls2 \<Rightarrow> ls2))"

definition saveState :: "platform \<Rightarrow> session \<Rightarrow> session" where
  "saveState pf st =
     st\<lparr>localStorage := write_items pf (conversation st) (userName st) (localStorage st)\<rparr>"

fun some_system :: "jsval list \<Rightarrow> js_error + bool" where
  \<comment> \<open>\<^verbatim>\<open>parsed.some((m) => m.role === "system")\<close>: stops at the first hit\<close>
  "some_system [] = Inr False"
| "some_system (m # ms) =
     (case role_is_system m of
        Inl e \<Rightarrow> Inl e
      | Inr True \<Rightarrow> Inr True
      | Inr False \<Rightarrow> some_system ms)"

definition loadState :: "platform \<Rightarrow> session \<Rightarrow> session" where
  \<comment> \<open>every \<open>Inl\<close> below is the \<^verbatim>\<open>catch\<close>: the state keeps what was assigned before it\<close>
  "loadState pf st =
     (case getItem (localStorage st) STORAGE_KEYS_conversation of
        Inl e \<Rightarrow> st
      | Inr raw \<Rightarrow>
          (case getItem (localStorage st) STORAGE_KEYS_userName of
             Inl e \<Rightarrow> st
           | Inr name \<Rightarrow>
               (let st1 = (case name of
                             None \<Rightarrow> st
                           | Some n \<Rightarrow> if n \<noteq> [] then st\<lparr>userName := n\<rparr> else st)
                in case raw of
                     None \<Rightarrow> st1
                   | Some r \<Rightarrow>
                       if r = [] then st1
                       else (case JSON_parse pf r of
                               Inl e \<Rightarrow> st1
                             | Inr (JArr parsed) \<Rightarrow>
                                 if parsed \<noteq> [] then
                                   (case some_system parsed of
                                      Inl e \<Rightarrow> st1
                                    | Inr True \<Rightarrow> st1\<lparr>conversation := parsed\<rparr>
                                    | Inr False \<Rightarrow>
                                        st1\<lparr>conversation := system_message # parsed\<rparr>)
                                 else st1
                             | Inr _ \<Rightarrow> st1))))"

definition detectAndSaveUserName :: "platform \<Rightarrow> jsstring \<Rightarrow> session \<Rightarrow> session" where
  "detectAndSaveUserName pf text st =
     (case match_name text of
        None \<Rightarrow> st
      | Some n \<Rightarrow> if n \<noteq> [] then saveState pf (st\<lparr>userName := n\<rparr>) else st)"

definition setLoading :: "bool \<Rightarrow> session \<Rightarrow> session" where
  \<comment> \<open>nothing happens on a page without the button\<close>
  "setLoading isLoading st =
     st\<lparr>sendBtn :=
          (case sendBtn st of
             None \<Rightarrow> None
           | Some btn \<Rightarrow>
               Some (btn\<lparr>disabled := isLoading,
                         opacity := (if isLoading then asc ''0.6'' else [])\<rparr>))\<rparr>"

definition choice_text :: "jsval \<Rightarrow> jsval" where
  \<comment> \<open>\<^verbatim>\<open>choice?.message?.content ?? choice?.delta?.content ?? choice?.text ?? null\<close>\<close>
  "choice_text choice =
     coalesce (opt_prop (opt_prop choice (asc ''message'')) (asc ''content''))
       (coalesce (opt_prop (opt_prop choice (asc ''delta'')) (asc ''content''))
          (coalesce (opt_prop choice (asc ''text'')) JNull))"

definition direct_text :: "platform \<Rightarrow> jsval \<Rightarrow> js_error + jsval" where
  \<comment> \<open>the first lookup: \<^verbatim>\<open>data?.choices && data.choices.length > 0\<close>, then
      \<^verbatim>\<open>data.choices[0]\<close>; \<^verbatim>\<open>null\<close> when the test fails\<close>
  "direct_text pf data =
     (let choices = opt_prop data (asc ''choices'')
      in if \<not> truthy choices then Inr JNull
         else (case prop_length choices of
                 Inl e \<Rightarrow> Inl e
               | Inr len \<Rightarrow>
                   (case gt_zero pf len of
                      Inl e \<Rightarrow> Inl e
                    | Inr False \<Rightarrow> Inr JNull
                    | Inr True \<Rightarrow>
                        (case elem0 choices of
                           Inl e \<Rightarrow> Inl e
                         | Inr choice \<Rightarrow> Inr (choice_text choice)))))"

definition wrapped_text :: "platform \<Rightarrow> jsval \<Rightarrow> jsval \<Rightarrow> js_error + jsval" where
  \<comment> \<open>the second lookup, inside \<^verbatim>\<open>data.body\<close>; its inner \<^verbatim>\<open>try\<close> ignores every error\<close>
  "wrapped_text pf data assistantMessage =
     (if \<not> truthy assistantMessage \<and> truthy data then
        (case get_prop data (asc ''body'') of
           Inl e \<Rightarrow> Inl e
         | Inr b \<Rightarrow>
             if truthy b then
               (case (case b of JStr s \<Rightarrow> JSON_parse pf s | _ \<Rightarrow> Inr b) of
                  Inl e \<Rightarrow> Inr assistantMessage
                | Inr parsed \<Rightarrow>
                    Inr (choice_text (opt_elem0 (opt_prop parsed (asc ''choices'')))))
             else Inr assistantMessage)
      else Inr assistantMessage)"

definition no_text_error :: "platform \<Rightarrow> jsval \<Rightarrow> js_error" where
  \<comment> \<open>what is thrown when no assistant text was found\<close>
  "no_text_error pf data =
     (let err = opt_prop data (asc ''error'')
      in if truthy err then
           (case get_prop err (asc ''message'') of
              Inl e \<Rightarrow> e
            | Inr m \<Rightarrow>
                (let msg = (if truthy m then m else JStr (JSON_stringify pf err))
                 in case to_string pf msg of
                      Inl e \<Rightarrow> e
                    | Inr s \<Rightarrow> Error (asc ''OpenAI error: '' @ s)))
         else Error (asc ''No assistant message in response '' @ [0x2014] @
                     asc '' see console for full API response''))"

definition assistant_text :: "platform \<Rightarrow> jsval \<Rightarrow> js_error + jsval" where
  \<comment> \<open>\<^verbatim>\<open>assistantMessage\<close> after both lookups\<close>
  "assistant_text pf data =
     (case direct_text pf data of
        Inl e \<Rightarrow> Inl e
      | Inr assistantMessage \<Rightarrow> wrapped_text pf data assistantMessage)"

definition workerUrl_of :: "secrets \<Rightarrow> jsstring option" where
  \<comment> \<open>\<^verbatim>\<open>typeof cfWorkerUrl !== "undefined" && cfWorkerUrl ? cfWorkerUrl : null\<close>\<close>
  "workerUrl_of sec =
     (case cfWorkerUrl sec of
        None \<Rightarrow> None
      | Some u \<Rightarrow> if u \<noteq> [] then Some u else None)"

definition build_request :: "platform \<Rightarrow> secrets \<Rightarrow> jsval list \<Rightarrow> js_error + request" where
  "build_request pf sec conv =
     (case workerUrl_of sec of
        Some u \<Rightarrow>
          Inr \<lparr>url = u,
               headers = [(asc ''Content-Type'', asc ''application/json'')],
               body = JSON_stringify pf (JObj [(asc ''messages'', JArr conv)])\<rparr>
      | None \<Rightarrow>
          (case apiKey sec of
             None \<Rightarrow> Inl (ReferenceError (asc ''apiKey is not defined''))
           | Some key \<Rightarrow>
               Inr \<lparr>url = asc ''https://api.openai.com/v1/chat/completions'',
                    headers = [(asc ''Content-Type'', asc ''application/json''),
                               (asc ''Authorization'', asc ''Bearer '' @ key)],
                    body = JSON_stringify pf
                             (JObj [(asc ''model'', JStr (asc ''gpt-4o'')),
                                    (asc ''messages'', JArr conv),
                                    (asc ''temperature'', JNum (Num (1 / 5)))])\<rparr>))"

definition try_block ::
  "platform \<Rightarrow> secrets \<Rightarrow> fetch \<Rightarrow> session \<Rightarrow> session \<times> js_error option" where
  \<comment> \<open>the body of \<^verbatim>\<open>try\<close>: the state where it ended, and what it threw if it threw\<close>
  "try_block pf sec fetch st0 =
     (let st1 = setLoading True st0
      in case build_request pf sec (conversation st1) of
           Inl e \<Rightarrow> (st1, Some e)
         | Inr req \<Rightarrow>
             (let st2 = st1\<lparr>network := network st1 @ [req]\<rparr>
              in case fetch req of
                   Inl e \<Rightarrow> (st2, Some e)
                 | Inr res \<Rightarrow>
                     if \<not> res_ok res then
                       (case res_text res of
                          Inl e \<Rightarrow> (st2, Some e)
                        | Inr txt \<Rightarrow>
                            (st2, Some (Error (asc ''API error: '' @ decimal (res_status res)
                                               @ asc '' '' @ txt))))
                     else
                       (case res_json res of
                          Inl e \<Rightarrow> (st2, Some e)
                        | Inr data \<Rightarrow>
                            (case assistant_text pf data of
                               Inl e \<Rightarrow> (st2, Some e)
                             | Inr assistantMessage \<Rightarrow>
                                 if \<not> truthy assistantMessage then
                                   (st2, Some (no_text_error pf data))
                                 else
                                   (let st3 = st2\<lparr>conversation := conversation st2 @
                                                [mk_message (asc ''assistant'') assistantMessage]\<rparr>;
                                        st4 = saveState pf st3
                                    in case appendMessage (asc ''ai'') assistantMessage st4 of
                                         Inl e \<Rightarrow> (st4, Some e)
                                       | Inr st5 \<Rightarrow> (st5, None))))))"

definition friendlyMessage :: "jsstring option \<Rightarrow> js_error \<Rightarrow> jsstring" where
  "friendlyMessage workerUrl err =
     (let isNetworkErr = (instanceof_TypeError err \<or>
                          contains_ci (asc ''failed to fetch'') (message err))
      in if isNetworkErr then
           (case workerUrl of
              Some u \<Rightarrow>
                asc ''Network error: could not reach the Cloudflare Worker at '' @ u @
                asc ''. Make sure the worker is deployed and that CORS/OPENAI_API_KEY are configured. See console for details.''
            | None \<Rightarrow>
                asc ''Network error: could not reach the OpenAI API. Check your internet connection and API key configuration. See console for details.'')
         else if message err \<noteq> [] then asc ''Error: '' @ message err
         else asc ''Sorry '' @ [0x2014] @ asc '' there was an error getting a response.'')"

definition sendMessageToOpenAI ::
  "platform \<Rightarrow> secrets \<Rightarrow> fetch \<Rightarrow> session \<Rightarrow> session \<times> js_error option" where
  \<comment> \<open>the second component is the error the returned promise rejects with, if it does;
      \<^verbatim>\<open>trimConversation\<close> runs before the \<^verbatim>\<open>try\<close>\<close>
  "sendMessageToOpenAI pf sec fetch st =
     (case trimConversation (conversation st) of
        Inl e \<Rightarrow> (st, Some e)
      | Inr conv \<Rightarrow>
          (case try_block pf sec fetch (st\<lparr>conversation := conv\<rparr>) of
             (st1, None) \<Rightarrow> (setLoading False st1, None)
           | (st1, Some err) \<Rightarrow>
               (case appendMessage (asc ''ai'')
                       (JStr (friendlyMessage (workerUrl_of sec) err)) st1 of
                  Inl e \<Rightarrow> (setLoading False st1, Some e)
                | Inr st2 \<Rightarrow> (setLoading False st2, None))))"

definition submit ::
  "platform \<Rightarrow> secrets \<Rightarrow> fetch \<Rightarrow> session \<Rightarrow> session \<times> js_error option" where
  \<comment> \<open>the \<^verbatim>\<open>submit\<close> handler of the form, run to its end before the next event\<close>
  "submit pf sec fetch st =
     (let text = js_trim (userInput st)
      in if text = [] then (st, None)
         else
           (let st1 = st\<lparr>conversation := conversation st @
                          [mk_message (asc ''user'') (JStr text)]\<rparr>;
                st2 = detectAndSaveUserName pf text st1;
                st3 = saveState pf st2
            in case appendMessage (asc ''user'') (JStr text) st3 of
                 Inl e \<Rightarrow> (st3, Some e)
               | Inr st4 \<Rightarrow>
                   (let st5 = (case latestQuestionEl st4 of
                                 None \<Rightarrow> st4
                               | Some _ \<Rightarrow> st4\<lparr>latestQuestionEl := Some text\<rparr>);
                        st6 = st5\<lparr>userInput := []\<rparr>
                    in sendMessageToOpenAI pf sec fetch st6)))"

section \<open>Vocabulary of the statements\<close>

definition render :: "jsstring \<Rightarrow> jsstring" where
  \<comment> \<open>the markup \<open>appendMessage\<close> gives a text\<close>
  "render s = replaceAll 0xA (asc ''<br>'') (escapeHtml s)"

definition failing_outcome :: "platform \<Rightarrow> js_error + response \<Rightarrow> bool" where
  \<comment> \<open>what \<^verbatim>\<open>fetch\<close> gave is a failure: it was rejected, or the status is not a success,
      or the body is not JSON, or no assistant text is found in it (which is when a
      provider's error object is looked at)\<close>
  "failing_outcome pf out =
     (case out of
        Inl e \<Rightarrow> True
      | Inr res \<Rightarrow>
          \<not> res_ok res \<or>
          (case res_json res of
             Inl e \<Rightarrow> True
           | Inr data \<Rightarrow>
               (case assistant_text pf data of
                  Inl e \<Rightarrow> True
                | Inr assistantMessage \<Rightarrow> \<not> truthy assistantMessage)))"

definition call_fails :: "platform \<Rightarrow> secrets \<Rightarrow> fetch \<Rightarrow> jsval list \<Rightarrow> bool" where
  \<comment> \<open>the remote call on the (trimmed) conversation fails: the request cannot be built
      (neither a worker URL nor a key is defined), or its outcome is a failure\<close>
  "call_fails pf sec fetch conv =
     (case build_request pf sec conv of
        Inl e \<Rightarrow> True
      | Inr req \<Rightarrow> failing_outcome pf (fetch req))"

definition record_turn :: "platform \<Rightarrow> jsstring \<Rightarrow> session \<Rightarrow> session" where
  \<comment> \<open>the state in which the handler reaches the remote call, for the trimmed input \<open>text\<close>\<close>
  "record_turn pf text st =
     (let st1 = st\<lparr>conversation := conversation st @ [mk_message (asc ''user'') (JStr text)]\<rparr>;
          st3 = saveState pf (detectAndSaveUserName pf text st1)
      in st3\<lparr>chatWindow := chatWindow st3 @ [Div (asc ''msg user'') (render text)],
             latestQuestionEl := (case latestQuestionEl st3 of None \<Rightarrow> None | Some _ \<Rightarrow> Some text),
             userInput := []\<rparr>)"

definition enabled :: "button option \<Rightarrow> button option" where
  \<comment> \<open>the send button, if the page has one, as \<open>setLoading False\<close> leaves it\<close>
  "enabled b = map_option (\<lambda>btn. btn\<lparr>disabled := False, opacity := []\<rparr>) b"

section \<open>Sample data for evaluating the theorems\<close>

definition question :: "nat \<Rightarrow> jsval" where
  \<comment> \<open>the user message \<^verbatim>\<open>{ role: "user", content: "question i" }\<close>\<close>
  "question i = mk_message (asc ''user'') (JStr (asc ''question '' @ decimal i))"

definition stored_without_system :: jsstring where
  \<open>stored_without_system =
     asc ''[{"role":"user","content":"hi"},{"role":"assistant","content":"hello"}]''\<close>

definition stored_system_last :: jsstring where
  \<open>stored_system_last =
     asc ''[{"role":"user","content":"hi"},{"role":"system","content":"Be brief."}]''\<close>

definition sample_texts :: "(jsstring \<times> jsval) list" where
  \<comment> \<open>JSON texts and the values they denote\<close>
  "sample_texts =
     [(stored_without_system,
       JArr [mk_message (asc ''user'') (JStr (asc ''hi'')),
             mk_message (asc ''assistant'') (JStr (asc ''hello''))]),
      (stored_system_last,
       JArr [mk_message (asc ''user'') (JStr (asc ''hi'')),
             mk_message (asc ''system'') (JStr (asc ''Be brief.''))])]"

definition sample_platform :: platform where
  \<comment> \<open>one platform among all those the theorems speak of: its parser knows the texts of
      \<open>sample_texts\<close> and rejects every other text, as \<^verbatim>\<open>JSON.parse\<close> rejects the one
      malformed text used below; its serialiser is the same table read backwards (and the
      empty text elsewhere), so the evaluations below leave serialised values as they
      are written; its conversions answer as for a plain object\<close>
  "sample_platform =
     \<lparr>JSON_parse = (\<lambda>s. case map_of sample_texts s of
                           Some v \<Rightarrow> Inr v
                         | None \<Rightarrow> Inl (SyntaxError (asc ''Unexpected token''))),
      JSON_stringify = (\<lambda>v. case map_of (map (\<lambda>(s, w). (w, s)) sample_texts) v of
                               Some s \<Rightarrow> s
                             | None \<Rightarrow> []),
      ToString = (\<lambda>v. Inr (asc ''[object Object]'')),
      ToNumber = (\<lambda>v. Inr NaN)\<rparr>"

definition sample_storage :: "(jsstring \<times> jsstring) list \<Rightarrow> web_storage" where
  \<comment> \<open>a working storage holding the given items\<close>
  "sample_storage kvs =
     \<lparr>items = map_of kvs, read_failure = None, write_failure = (\<lambda>k v. None)\<rparr>"

definition sample_session :: "jsval list \<Rightarrow> jsstring \<Rightarrow> session" where
  \<comment> \<open>a page with an empty chat window, the given conversation and the given text typed\<close>
  "sample_session conv typed =
     \<lparr>conversation = conv, userName = [], localStorage = sample_storage [],
      chatWindow = [], latestQuestionEl = Some [], userInput = typed,
      sendBtn = Some \<lparr>disabled = False, opacity = []\<rparr>, network = []\<rparr>"

definition sample_secrets :: secrets where
  "sample_secrets =
     \<lparr>cfWorkerUrl = Some (asc ''https://chat.example.workers.dev''), apiKey = None\<rparr>"

definition reply_with :: "jsval \<Rightarrow> fetch" where
  \<comment> \<open>an endpoint that answers every request with status 200 and the given JSON body\<close>
  "reply_with data =
     (\<lambda>req. Inr \<lparr>res_ok = True, res_status = 200, res_text = Inr [], res_json = Inr data\<rparr>)"

definition completion :: "jsstring \<Rightarrow> jsval" where
  \<comment> \<open>\<^verbatim>\<open>{ choices: [ { message: { content: x } } ] }\<close>\<close>
  "completion x =
     JObj [(asc ''choices'',
            JArr [JObj [(asc ''message'', JObj [(asc ''content'', JStr x)])]])]"

definition status_500 :: fetch where
  \<comment> \<open>an endpoint that answers every request with status 500\<close>
  "status_500 =
     (\<lambda>req. Inr \<lparr>res_ok = False, res_status = 500,
                  res_text = Inr (asc ''Internal Server Error''),
                  res_json = Inl (SyntaxError (asc ''Unexpected token''))\<rparr>)"

definition unreachable :: fetch where
  \<comment> \<open>an endpoint that cannot be reached\<close>
  "unreachable = (\<lambda>req. Inl (TypeError (asc ''Failed to fetch'')))"

definition number_completion :: jsval where
  \<comment> \<open>\<^verbatim>\<open>{ choices: [ { message: { content: 5 } } ] }\<close>: a reply whose text is not a string\<close>
  "number_completion =
     JObj [(asc ''choices'',
            JArr [JObj [(asc ''message'', JObj [(asc ''content'', JNum (Num 5))])]])]"

section \<open>Trimming\<close>

declare decimal.simps [simp del]

lemma role_is_system_readable:
  "readable m \<Longrightarrow> role_is_system m = Inr (is_system m)"
  by (cases m) (simp_all add: readable_def is_system_def has_role_def)

lemma find_system_readable:
  "list_all readable conv \<Longrightarrow>
   find_system conv = Inr (case List.find is_system conv of None \<Rightarrow> JUndefined | Some m \<Rightarrow> m)"
  by (induction conv) (simp_all add: role_is_system_readable del: role_is_system.simps)

lemma filter_others_readable:
  "list_all readable conv \<Longrightarrow> filter_others conv = Inr (non_system conv)"
  by (induction conv)
     (simp_all add: role_is_system_readable non_system_def del: role_is_system.simps)

lemma trimConversation_readable:
  "list_all readable conv \<Longrightarrow>
   trimConversation conv =
     Inr ((case List.find is_system conv of None \<Rightarrow> JUndefined | Some m \<Rightarrow> m)
          # slice_last MAX_CONVERSATION_MESSAGES (non_system conv))"
  by (simp add: trimConversation_def find_system_readable filter_others_readable)

lemma find_is_system_Some:
  "\<exists>m \<in> set conv. is_system m \<Longrightarrow>
   \<exists>s. List.find is_system conv = Some s \<and> is_system s \<and> s \<in> set conv"
  by (induction conv) auto

lemma slice_last_length: "length (slice_last n xs) = min n (length xs)"
  by (simp add: slice_last_def)

lemma slice_last_suffix: "suffix (slice_last n xs) xs"
  by (simp add: slice_last_def suffix_drop)

lemma slice_last_set: "set (slice_last n xs) \<subseteq> set xs"
  by (simp add: slice_last_def set_drop_subset)

lemma is_system_system_message: "is_system system_message"
  by (simp add: is_system_def has_role_def system_message_def mk_message_def)

lemma readable_mk_message: "readable (mk_message r c)"
  by (simp add: readable_def mk_message_def)

lemma is_system_mk_message: "is_system (mk_message r c) = (r = asc ''system'')"
  by (simp add: is_system_def has_role_def mk_message_def)

text \<open>
  Claim C3. For every conversation that contains a system message and whose elements can
  all be read (as every message object can), \<open>trimConversation\<close> returns without an
  error, and the new conversation is the first system message followed by the last
  \<open>min 40 k\<close> of the \<open>k\<close> non-system messages: nothing after the head is a system
  message, and what is kept is a suffix of the non-system messages, in the order the
  conversation had them.
\<close>

theorem trim_keeps_system_and_recent:
  assumes "list_all readable conv" and "list_ex is_system conv"
  shows "\<exists>sys recent.
           trimConversation conv = Inr (sys # recent) \<and>
           List.find is_system conv = Some sys \<and> is_system sys \<and>
           recent = drop (length (non_system conv) - 40) (non_system conv) \<and>
           length recent = min 40 (length (non_system conv)) \<and>
           list_all (\<lambda>m. \<not> is_system m) recent \<and>
           suffix recent (non_system conv) \<and> subseq recent conv"
proof -
  from assms(2) have "\<exists>m \<in> set conv. is_system m"
    by (simp add: list_ex_iff)
  then obtain sys where sys: "List.find is_system conv = Some sys" "is_system sys"
    using find_is_system_Some by blast
  let ?recent = "slice_last MAX_CONVERSATION_MESSAGES (non_system conv)"
  have t: "trimConversation conv = Inr (sys # ?recent)"
    using assms(1) sys(1) by (simp add: trimConversation_readable)
  have r: "?recent = drop (length (non_system conv) - 40) (non_system conv)"
    by (simp add: slice_last_def MAX_CONVERSATION_MESSAGES_def)
  have l: "length ?recent = min 40 (length (non_system conv))"
    by (simp add: slice_last_length MAX_CONVERSATION_MESSAGES_def)
  have s: "suffix ?recent (non_system conv)"
    by (rule slice_last_suffix)
  have "set ?recent \<subseteq> set (non_system conv)"
    by (rule slice_last_set)
  then have n: "list_all (\<lambda>m. \<not> is_system m) ?recent"
    by (auto simp: list_all_iff non_system_def)
  have "subseq ?recent (non_system conv)"
    using s by (rule suffix_imp_subseq)
  moreover have "subseq (non_system conv) conv"
    by (simp add: non_system_def)
  ultimately have q: "subseq ?recent conv"
    by (rule subseq_order.trans)
  from t sys r l n s q show ?thesis by blast
qed

text \<open>At a conversation of the system message and 45 questions, the last 40 are kept.\<close>

theorem trim_keeps_system_and_recent_witness:
  "trimConversation (system_message # map question [1..<46]) =
     Inr (system_message # map question [6..<46])"
proof -
  let ?conv = "system_message # map question [1..<46]"
  have a: "list_all readable ?conv"
    by (simp add: list_all_iff question_def readable_mk_message system_message_def)
  have b: "list_ex is_system ?conv"
    by (simp add: is_system_system_message)
  have c: "non_system ?conv = map question [1..<46]"
    by (simp add: non_system_def is_system_system_message question_def
          is_system_mk_message asc_def filter_map o_def)
  have d: "List.find is_system ?conv = Some system_message"
    by (simp add: is_system_system_message)
  have e: "drop 5 (map question [1..<46]) = map question [6..<46]"
    by (simp add: drop_map)
  from trim_keeps_system_and_recent [OF a b] c d e show ?thesis
    by auto
qed

section \<open>The remote call\<close>

lemma saveState_fields [simp]:
  "conversation (saveState pf st) = conversation st"
  "userName (saveState pf st) = userName st"
  "chatWindow (saveState pf st) = chatWindow st"
  "latestQuestionEl (saveState pf st) = latestQuestionEl st"
  "userInput (saveState pf st) = userInput st"
  "sendBtn (saveState pf st) = sendBtn st"
  "network (saveState pf st) = network st"
  "localStorage (saveState pf st) =
     write_items pf (conversation st) (userName st) (localStorage st)"
  by (simp_all add: saveState_def)

lemma setLoading_fields [simp]:
  "conversation (setLoading b st) = conversation st"
  "userName (setLoading b st) = userName st"
  "localStorage (setLoading b st) = localStorage st"
  "chatWindow (setLoading b st) = chatWindow st"
  "latestQuestionEl (setLoading b st) = latestQuestionEl st"
  "userInput (setLoading b st) = userInput st"
  "network (setLoading b st) = network st"
  by (simp_all add: setLoading_def)

lemma setLoading_sendBtn [simp]:
  "sendBtn (setLoading False st) = enabled (sendBtn st)"
  by (simp add: setLoading_def enabled_def split: option.splits)

lemma enabled_setLoading [simp]:
  "enabled (sendBtn (setLoading b st)) = enabled (sendBtn st)"
  by (simp add: setLoading_def enabled_def split: option.splits)

lemma msg_ai: "asc ''msg '' @ asc ''ai'' = asc ''msg ai''"
  by (simp add: asc_def)

lemma msg_user: "asc ''msg '' @ asc ''user'' = asc ''msg user''"
  by (simp add: asc_def)

lemma appendMessage_JStr:
  "appendMessage r (JStr s) st =
     Inr (st\<lparr>chatWindow := chatWindow st @ [Div (asc ''msg '' @ r) (render s)]\<rparr>)"
  by (simp add: appendMessage_def render_def)

lemma appendMessage_Inr:
  "appendMessage r v st = Inr st' \<Longrightarrow>
   \<exists>s. v = JStr s \<and> st' = st\<lparr>chatWindow := chatWindow st @ [Div (asc ''msg '' @ r) (render s)]\<rparr>"
  by (auto simp: appendMessage_def render_def split: jsval.splits)

text \<open>The try block, outcome by outcome.\<close>

lemma try_block_fails:
  assumes "call_fails pf sec fetch (conversation st0)"
  shows "\<exists>e st1. try_block pf sec fetch st0 = (st1, Some e) \<and>
           conversation st1 = conversation st0 \<and> localStorage st1 = localStorage st0 \<and>
           userName st1 = userName st0 \<and> chatWindow st1 = chatWindow st0 \<and>
           latestQuestionEl st1 = latestQuestionEl st0 \<and> userInput st1 = userInput st0 \<and>
           enabled (sendBtn st1) = enabled (sendBtn st0)"
  using assms unfolding try_block_def call_fails_def failing_outcome_def Let_def
  by (auto split: sum.splits)

lemma try_block_replies:
  assumes "build_request pf sec (conversation st0) = Inr req"
    and "fetch req = Inr res" and "res_ok res" and "res_json res = Inr data"
    and "assistant_text pf data = Inr (JStr x)" and "x \<noteq> []"
  shows "try_block pf sec fetch st0 =
           ((saveState pf
               ((setLoading True st0)
                  \<lparr>network := network st0 @ [req],
                   conversation := conversation st0 @ [mk_message (asc ''assistant'') (JStr x)]\<rparr>))
              \<lparr>chatWindow := chatWindow st0 @ [Div (asc ''msg ai'') (render x)]\<rparr>, None)"
  using assms unfolding try_block_def Let_def
  by (simp add: appendMessage_JStr msg_ai)

lemma try_block_any:
  assumes "try_block pf sec fetch st0 = (st1, r)"
  shows "(conversation st1 = conversation st0 \<or>
          (\<exists>am. truthy am \<and>
                conversation st1 = conversation st0 @ [mk_message (asc ''assistant'') am])) \<and>
         (case r of
            None \<Rightarrow> \<exists>html. chatWindow st1 = chatWindow st0 @ [Div (asc ''msg ai'') html]
          | Some e \<Rightarrow> chatWindow st1 = chatWindow st0) \<and>
         userName st1 = userName st0 \<and> enabled (sendBtn st1) = enabled (sendBtn st0) \<and>
         latestQuestionEl st1 = latestQuestionEl st0 \<and> userInput st1 = userInput st0"
  using assms unfolding try_block_def Let_def
  by (fastforce split: sum.splits if_splits dest: appendMessage_Inr simp: msg_ai)

lemma try_block_network:
  assumes "try_block pf sec fetch st0 = (st1, r)"
  shows "case build_request pf sec (conversation st0) of
           Inl e \<Rightarrow> network st1 = network st0
         | Inr req \<Rightarrow> network st1 = network st0 @ [req]"
  using assms unfolding try_block_def Let_def
  by (auto split: sum.splits if_splits dest: appendMessage_Inr)

lemma try_block_status:
  assumes "build_request pf sec (conversation st0) = Inr req"
    and "fetch req = Inr res" and "\<not> res_ok res" and "res_text res = Inr txt"
  shows "try_block pf sec fetch st0 =
           ((setLoading True st0)\<lparr>network := network st0 @ [req]\<rparr>,
            Some (Error (asc ''API error: '' @ decimal (res_status res) @ asc '' '' @ txt)))"
  using assms unfolding try_block_def Let_def by simp

text \<open>The whole call.\<close>

lemma send_trim_error:
  "trimConversation (conversation st) = Inl e \<Longrightarrow>
   sendMessageToOpenAI pf sec fetch st = (st, Some e)"
  by (simp add: sendMessageToOpenAI_def)

lemma send_unfold:
  assumes "trimConversation (conversation st) = Inr conv"
    and "try_block pf sec fetch (st\<lparr>conversation := conv\<rparr>) = (st1, r)"
  shows "sendMessageToOpenAI pf sec fetch st =
           (case r of
              None \<Rightarrow> (setLoading False st1, None)
            | Some err \<Rightarrow>
                (setLoading False
                   (st1\<lparr>chatWindow := chatWindow st1 @
                          [Div (asc ''msg ai'') (render (friendlyMessage (workerUrl_of sec) err))]\<rparr>),
                 None))"
  using assms
  by (simp add: sendMessageToOpenAI_def appendMessage_JStr msg_ai split: option.splits)

lemma send_fails:
  assumes "trimConversation (conversation st) = Inr conv"
    and "call_fails pf sec fetch conv"
  shows "\<exists>e n. sendMessageToOpenAI pf sec fetch st =
           (st\<lparr>conversation := conv,
               chatWindow := chatWindow st @
                 [Div (asc ''msg ai'') (render (friendlyMessage (workerUrl_of sec) e))],
               sendBtn := enabled (sendBtn st),
               network := n\<rparr>, None)"
proof -
  let ?st0 = "st\<lparr>conversation := conv\<rparr>"
  from assms(2) have "call_fails pf sec fetch (conversation ?st0)" by simp
  from try_block_fails [OF this] obtain e st1 where
    t: "try_block pf sec fetch ?st0 = (st1, Some e)" and
    f: "conversation st1 = conv" "localStorage st1 = localStorage st"
       "userName st1 = userName st" "chatWindow st1 = chatWindow st"
       "latestQuestionEl st1 = latestQuestionEl st" "userInput st1 = userInput st"
       "enabled (sendBtn st1) = enabled (sendBtn st)"
    by auto
  have "setLoading False
          (st1\<lparr>chatWindow := chatWindow st1 @
                 [Div (asc ''msg ai'') (render (friendlyMessage (workerUrl_of sec) e))]\<rparr>) =
        st\<lparr>conversation := conv,
           chatWindow := chatWindow st @
             [Div (asc ''msg ai'') (render (friendlyMessage (workerUrl_of sec) e))],
           sendBtn := enabled (sendBtn st),
           network := network st1\<rparr>"
    using f by (intro session.equality) simp_all
  then show ?thesis
    unfolding send_unfold [OF assms(1) t] by auto
qed

lemma send_replies:
  assumes "trimConversation (conversation st) = Inr conv"
    and "build_request pf sec conv = Inr req"
    and "fetch req = Inr res" and "res_ok res" and "res_json res = Inr data"
    and "assistant_text pf data = Inr (JStr x)" and "x \<noteq> []"
  shows "sendMessageToOpenAI pf sec fetch st =
           (st\<lparr>conversation := conv @ [mk_message (asc ''assistant'') (JStr x)],
               localStorage := write_items pf
                  (conv @ [mk_message (asc ''assistant'') (JStr x)]) (userName st) (localStorage st),
               chatWindow := chatWindow st @ [Div (asc ''msg ai'') (render x)],
               sendBtn := enabled (sendBtn st),
               network := network st @ [req]\<rparr>, None)"
proof -
  let ?st0 = "st\<lparr>conversation := conv\<rparr>"
  have b: "build_request pf sec (conversation ?st0) = Inr req"
    using assms(2) by simp
  have t: "try_block pf sec fetch ?st0 =
           ((saveState pf
               ((setLoading True ?st0)
                  \<lparr>network := network ?st0 @ [req],
                   conversation := conversation ?st0 @ [mk_message (asc ''assistant'') (JStr x)]\<rparr>))
              \<lparr>chatWindow := chatWindow ?st0 @ [Div (asc ''msg ai'') (render x)]\<rparr>, None)"
    using b assms(3-7) by (rule try_block_replies)
  have "setLoading False
          ((saveState pf
              ((setLoading True ?st0)
                 \<lparr>network := network ?st0 @ [req],
                  conversation := conversation ?st0 @ [mk_message (asc ''assistant'') (JStr x)]\<rparr>))
             \<lparr>chatWindow := chatWindow ?st0 @ [Div (asc ''msg ai'') (render x)]\<rparr>) =
        st\<lparr>conversation := conv @ [mk_message (asc ''assistant'') (JStr x)],
           localStorage := write_items pf
              (conv @ [mk_message (asc ''assistant'') (JStr x)]) (userName st) (localStorage st),
           chatWindow := chatWindow st @ [Div (asc ''msg ai'') (render x)],
           sendBtn := enabled (sendBtn st),
           network := network st @ [req]\<rparr>"
    by (intro session.equality) simp_all
  then show ?thesis
    unfolding send_unfold [OF assms(1) t] by simp
qed

lemma send_any:
  assumes "trimConversation (conversation st) = Inr conv"
    and "sendMessageToOpenAI pf sec fetch st = (st', r)"
  shows "r = None \<and>
         (conversation st' = conv \<or>
          (\<exists>am. truthy am \<and> conversation st' = conv @ [mk_message (asc ''assistant'') am])) \<and>
         (\<exists>html. chatWindow st' = chatWindow st @ [Div (asc ''msg ai'') html]) \<and>
         userName st' = userName st \<and> sendBtn st' = enabled (sendBtn st) \<and>
         latestQuestionEl st' = latestQuestionEl st \<and> userInput st' = userInput st \<and>
         (case build_request pf sec conv of
            Inl e \<Rightarrow> network st' = network st
          | Inr req \<Rightarrow> network st' = network st @ [req])"
proof -
  obtain st1 r1 where t: "try_block pf sec fetch (st\<lparr>conversation := conv\<rparr>) = (st1, r1)"
    by (cases "try_block pf sec fetch (st\<lparr>conversation := conv\<rparr>)")
  note a = try_block_any [OF t] and n = try_block_network [OF t]
  from assms(2) have s: "(st', r) =
      (case r1 of
         None \<Rightarrow> (setLoading False st1, None)
       | Some err \<Rightarrow>
           (setLoading False
              (st1\<lparr>chatWindow := chatWindow st1 @
                     [Div (asc ''msg ai'') (render (friendlyMessage (workerUrl_of sec) err))]\<rparr>),
            None))"
    unfolding send_unfold [OF assms(1) t] by simp
  show ?thesis
  proof (cases r1)
    case None
    with s have "st' = setLoading False st1" "r = None" by simp_all
    with a n None show ?thesis
      by (auto split: sum.splits)
  next
    case (Some err)
    with s have "st' = setLoading False
              (st1\<lparr>chatWindow := chatWindow st1 @
                     [Div (asc ''msg ai'') (render (friendlyMessage (workerUrl_of sec) err))]\<rparr>)"
      "r = None" by simp_all
    with a n Some show ?thesis
      by (auto split: sum.splits)
  qed
qed

lemma storage_keys_distinct: "STORAGE_KEYS_userName \<noteq> STORAGE_KEYS_conversation"
  by (simp add: STORAGE_KEYS_userName_def STORAGE_KEYS_conversation_def asc_def)

lemma write_items_conversation:
  "write_failure ls STORAGE_KEYS_conversation (JSON_stringify pf (JArr conv)) = None \<Longrightarrow>
   items (write_items pf conv name ls) STORAGE_KEYS_conversation =
     Some (JSON_stringify pf (JArr conv))"
  using storage_keys_distinct
  by (simp add: write_items_def setItem_def split: option.splits)

lemma write_items_userName:
  "write_failure ls = (\<lambda>k v. None) \<Longrightarrow>
   items (write_items pf conv name ls) STORAGE_KEYS_userName = Some name"
  by (simp add: write_items_def setItem_def)

lemma assistant_text_shape:
  assumes "get_prop data (asc ''choices'') = Inr (JArr (choice # rest))"
    and "get_prop choice (asc ''message'') = Inr msg"
    and "get_prop msg (asc ''content'') = Inr (JStr x)"
    and "x \<noteq> []"
  shows "assistant_text pf data = Inr (JStr x)"
proof -
  have c: "opt_prop data (asc ''choices'') = JArr (choice # rest)"
    using assms(1) by (simp add: opt_prop_def)
  have t: "choice_text choice = JStr x"
    using assms(2,3) by (simp add: choice_text_def opt_prop_def coalesce_def)
  have d: "direct_text pf data = Inr (JStr x)"
    by (simp add: direct_text_def c t gt_zero_def to_number_def)
  show ?thesis
    using assms(4) by (simp add: assistant_text_def d wrapped_text_def)
qed

text \<open>
  Claim C4. When the request can be built, \<^verbatim>\<open>fetch\<close> resolves to a successful response and
  its JSON body has the shape \<^verbatim>\<open>{choices: [{message: {content: x}}, ...], ...}\<close> with a
  non-empty text \<open>x\<close>, the call appends exactly one message,
  \<^verbatim>\<open>{role: "assistant", content: x}\<close>, to the (trimmed) conversation, returns without an
  error, and, the storage accepting the write, the stored conversation is the
  serialisation of the updated conversation.
\<close>

theorem reply_is_appended_and_persisted:
  assumes "trimConversation (conversation st) = Inr conv"
    and "build_request pf sec conv = Inr req"
    and "fetch req = Inr res" and "res_ok res" and "res_json res = Inr data"
    and "get_prop data (asc ''choices'') = Inr (JArr (choice # rest))"
    and "get_prop choice (asc ''message'') = Inr msg"
    and "get_prop msg (asc ''content'') = Inr (JStr x)"
    and "x \<noteq> []"
    and "write_failure (localStorage st) STORAGE_KEYS_conversation
           (JSON_stringify pf (JArr (conv @ [mk_message (asc ''assistant'') (JStr x)]))) = None"
  shows "\<exists>st'. sendMessageToOpenAI pf sec fetch st = (st', None) \<and>
           conversation st' = conv @ [mk_message (asc ''assistant'') (JStr x)] \<and>
           items (localStorage st') STORAGE_KEYS_conversation =
             Some (JSON_stringify pf (JArr (conversation st'))) \<and>
           chatWindow st' = chatWindow st @ [Div (asc ''msg ai'') (render x)]"
proof -
  have a: "assistant_text pf data = Inr (JStr x)"
    using assms(6-9) by (rule assistant_text_shape)
  note s = send_replies [of st conv pf sec req fetch res data x, OF assms(1-5) a assms(9)]
  show ?thesis
    unfolding s using assms(10) by (simp add: write_items_conversation)
qed

lemma trim_fits:
  assumes "is_system s" and "readable s" and "list_all readable rest"
    and "list_all (\<lambda>m. \<not> is_system m) rest" and "length rest \<le> 40"
  shows "trimConversation (s # rest) = Inr (s # rest)"
proof -
  have "non_system (s # rest) = rest"
    using assms(1,4) by (simp add: non_system_def list_all_iff)
  then show ?thesis
    using assms
    by (simp add: trimConversation_readable slice_last_def MAX_CONVERSATION_MESSAGES_def)
qed

lemma question_facts [simp]:
  "readable (question i)" "\<not> is_system (question i)"
  by (simp_all add: question_def readable_mk_message is_system_mk_message asc_def)

lemma system_message_facts [simp]:
  "readable system_message" "is_system system_message"
  by (simp_all add: system_message_def readable_mk_message is_system_mk_message)

lemma sample_session_fields [simp]:
  "conversation (sample_session conv typed) = conv"
  "userName (sample_session conv typed) = []"
  "chatWindow (sample_session conv typed) = []"
  "userInput (sample_session conv typed) = typed"
  "network (sample_session conv typed) = []"
  "localStorage (sample_session conv typed) = sample_storage []"
  by (simp_all add: sample_session_def)

lemma sample_request:
  "build_request sample_platform sample_secrets conv =
     Inr \<lparr>url = asc ''https://chat.example.workers.dev'',
          headers = [(asc ''Content-Type'', asc ''application/json'')],
          body = JSON_stringify sample_platform (JObj [(asc ''messages'', JArr conv)])\<rparr>"
  by (simp add: build_request_def workerUrl_of_def sample_secrets_def asc_def)

theorem reply_is_appended_and_persisted_witness:
  "snd (sendMessageToOpenAI sample_platform sample_secrets (reply_with (completion (asc ''X'')))
         (sample_session [system_message, question 1] [])) = None \<and>
   conversation
     (fst (sendMessageToOpenAI sample_platform sample_secrets (reply_with (completion (asc ''X'')))
            (sample_session [system_message, question 1] []))) =
     [system_message, question 1, mk_message (asc ''assistant'') (JStr (asc ''X''))] \<and>
   chatWindow
     (fst (sendMessageToOpenAI sample_platform sample_secrets (reply_with (completion (asc ''X'')))
            (sample_session [system_message, question 1] []))) =
     [Div (asc ''msg ai'') (asc ''X'')] \<and>
   items
     (localStorage
        (fst (sendMessageToOpenAI sample_platform sample_secrets (reply_with (completion (asc ''X'')))
               (sample_session [system_message, question 1] []))))
     STORAGE_KEYS_conversation =
     Some (JSON_stringify sample_platform
             (JArr [system_message, question 1, mk_message (asc ''assistant'') (JStr (asc ''X''))]))"
proof -
  let ?st = "sample_session [system_message, question 1] []"
  have t: "trimConversation (conversation ?st) = Inr [system_message, question 1]"
    by (simp add: trim_fits)
  have f: "reply_with (completion (asc ''X''))
             \<lparr>url = asc ''https://chat.example.workers.dev'',
              headers = [(asc ''Content-Type'', asc ''application/json'')],
              body = JSON_stringify sample_platform
                       (JObj [(asc ''messages'', JArr [system_message, question 1])])\<rparr> =
           Inr \<lparr>res_ok = True, res_status = 200, res_text = Inr [],
                res_json = Inr (completion (asc ''X''))\<rparr>"
    by (simp add: reply_with_def)
  have c: "get_prop (completion (asc ''X'')) (asc ''choices'') =
             Inr (JArr (JObj [(asc ''message'', JObj [(asc ''content'', JStr (asc ''X''))])] # []))"
    by (simp add: completion_def)
  have m: "get_prop (JObj [(asc ''message'', JObj [(asc ''content'', JStr (asc ''X''))])])
             (asc ''message'') = Inr (JObj [(asc ''content'', JStr (asc ''X''))])"
    by simp
  have x: "get_prop (JObj [(asc ''content'', JStr (asc ''X''))]) (asc ''content'') =
             Inr (JStr (asc ''X''))"
    by simp
  have n: "asc ''X'' \<noteq> []"
    by (simp add: asc_def)
  have w: "write_failure (localStorage ?st) STORAGE_KEYS_conversation
             (JSON_stringify sample_platform
                (JArr ([system_message, question 1] @
                       [mk_message (asc ''assistant'') (JStr (asc ''X''))]))) = None"
    by (simp add: sample_storage_def)
  have r: "render (asc ''X'') = asc ''X''"
    by (simp add: render_def escapeHtml_def asc_def)
  from reply_is_appended_and_persisted
         [where fetch = "reply_with (completion (asc ''X''))" and st = ?st and pf = sample_platform
            and res = "\<lparr>res_ok = True, res_status = 200, res_text = Inr [],
                          res_json = Inr (completion (asc ''X''))\<rparr>",
          OF t sample_request f _ _ c m x n w] r
  show ?thesis by auto
qed

lemma find_is_system_mem:
  "List.find is_system conv = Some sys \<Longrightarrow> sys \<in> set conv \<and> is_system sys"
  by (induction conv) (auto split: if_splits)

lemma trim_well_formed:
  assumes "list_all readable conv" and "list_ex is_system conv"
  shows "\<exists>sys. List.find is_system conv = Some sys \<and>
           trimConversation conv =
             Inr (sys # drop (length (non_system conv) - 40) (non_system conv)) \<and>
           list_all readable (sys # drop (length (non_system conv) - 40) (non_system conv)) \<and>
           is_system sys"
proof -
  from assms(2) have "\<exists>m \<in> set conv. is_system m"
    by (simp add: list_ex_iff)
  then obtain sys where sys: "List.find is_system conv = Some sys" "is_system sys" "sys \<in> set conv"
    using find_is_system_Some by blast
  have "set (drop (length (non_system conv) - 40) (non_system conv)) \<subseteq> set conv"
    using set_drop_subset [of "length (non_system conv) - 40" "non_system conv"]
    by (auto simp: non_system_def)
  with assms(1) sys(3)
  have "list_all readable (sys # drop (length (non_system conv) - 40) (non_system conv))"
    by (auto simp: list_all_iff)
  with sys assms(1) show ?thesis
    by (simp add: trimConversation_readable slice_last_def MAX_CONVERSATION_MESSAGES_def)
qed

lemma send_status:
  assumes "trimConversation (conversation st) = Inr conv"
    and "build_request pf sec conv = Inr req"
    and "fetch req = Inr res" and "\<not> res_ok res" and "res_text res = Inr txt"
    and "sendMessageToOpenAI pf sec fetch st = (st', r)"
  shows "chatWindow st' = chatWindow st @
           [Div (asc ''msg ai'')
              (render (friendlyMessage (workerUrl_of sec)
                 (Error (asc ''API error: '' @ decimal (res_status res) @ asc '' '' @ txt))))]"
proof -
  let ?st0 = "st\<lparr>conversation := conv\<rparr>"
  have b: "build_request pf sec (conversation ?st0) = Inr req"
    using assms(2) by simp
  have t: "try_block pf sec fetch ?st0 =
           ((setLoading True ?st0)\<lparr>network := network ?st0 @ [req]\<rparr>,
            Some (Error (asc ''API error: '' @ decimal (res_status res) @ asc '' '' @ txt)))"
    using b assms(3-5) by (rule try_block_status)
  from assms(6) show ?thesis
    unfolding send_unfold [OF assms(1) t] by auto
qed

text \<open>
  Claim C5. In a session whose conversation holds readable messages and a system message,
  the call never ends in an error, whatever \<^verbatim>\<open>fetch\<close> does: it adds exactly one block
  of class \<^verbatim>\<open>msg ai\<close> to the chat window, re-enables the send button, and leaves a
  conversation on which the next call works again. When the call fails (rejected
  \<^verbatim>\<open>fetch\<close>, status that is not a success, body that is not JSON, no assistant text, a
  provider's error object) that one block is the friendly text of the error caught, and
  nothing is added to the conversation; for a status that is not a success the error
  caught is \<^verbatim>\<open>API error: <status> <body>\<close>.
\<close>

theorem remote_errors_become_one_message:
  assumes "list_all readable (conversation st)" and "list_ex is_system (conversation st)"
    and "sendMessageToOpenAI pf sec fetch st = (st', r)"
  shows "r = None \<and>
         (\<exists>html. chatWindow st' = chatWindow st @ [Div (asc ''msg ai'') html]) \<and>
         sendBtn st' = enabled (sendBtn st) \<and>
         list_all readable (conversation st') \<and> list_ex is_system (conversation st') \<and>
         (\<forall>conv. trimConversation (conversation st) = Inr conv \<longrightarrow>
                 call_fails pf sec fetch conv \<longrightarrow>
                 conversation st' = conv \<and>
                 (\<exists>e. chatWindow st' = chatWindow st @
                        [Div (asc ''msg ai'') (render (friendlyMessage (workerUrl_of sec) e))])) \<and>
         (\<forall>conv req res txt.
             trimConversation (conversation st) = Inr conv \<longrightarrow>
             build_request pf sec conv = Inr req \<longrightarrow> fetch req = Inr res \<longrightarrow>
             \<not> res_ok res \<longrightarrow> res_text res = Inr txt \<longrightarrow>
             chatWindow st' = chatWindow st @
               [Div (asc ''msg ai'')
                  (render (friendlyMessage (workerUrl_of sec)
                     (Error (asc ''API error: '' @ decimal (res_status res) @ asc '' '' @ txt))))])"
proof -
  from trim_well_formed [OF assms(1,2)] obtain sys conv where
    t: "trimConversation (conversation st) = Inr conv" and
    c: "conv = sys # drop (length (non_system (conversation st)) - 40)
                       (non_system (conversation st))" and
    w: "list_all readable conv" "is_system sys"
    by auto
  note a = send_any [OF t assms(3)]
  have wf: "list_all readable (conversation st') \<and> list_ex is_system (conversation st')"
    using a w c by (auto simp: readable_mk_message)
  have f: "\<forall>conv'. trimConversation (conversation st) = Inr conv' \<longrightarrow>
                 call_fails pf sec fetch conv' \<longrightarrow>
                 conversation st' = conv' \<and>
                 (\<exists>e. chatWindow st' = chatWindow st @
                        [Div (asc ''msg ai'') (render (friendlyMessage (workerUrl_of sec) e))])"
  proof (intro allI impI)
    fix conv'
    assume t': "trimConversation (conversation st) = Inr conv'"
      and cf: "call_fails pf sec fetch conv'"
    from send_fails [OF t' cf] assms(3)
    show "conversation st' = conv' \<and>
          (\<exists>e. chatWindow st' = chatWindow st @
                 [Div (asc ''msg ai'') (render (friendlyMessage (workerUrl_of sec) e))])"
      by auto
  qed
  have s: "\<forall>conv req res txt.
             trimConversation (conversation st) = Inr conv \<longrightarrow>
             build_request pf sec conv = Inr req \<longrightarrow> fetch req = Inr res \<longrightarrow>
             \<not> res_ok res \<longrightarrow> res_text res = Inr txt \<longrightarrow>
             chatWindow st' = chatWindow st @
               [Div (asc ''msg ai'')
                  (render (friendlyMessage (workerUrl_of sec)
                     (Error (asc ''API error: '' @ decimal (res_status res) @ asc '' '' @ txt))))]"
    using send_status [where st = st and st' = st' and r = r, OF _ _ _ _ _ assms(3)] by blast
  from a wf f s show ?thesis by blast
qed

lemma api_error_500:
  "friendlyMessage (workerUrl_of sample_secrets)
     (Error (asc ''API error: '' @ decimal 500 @ asc '' '' @ asc ''Internal Server Error'')) =
   asc ''Error: API error: 500 Internal Server Error''"
  by (simp add: friendlyMessage_def decimal.simps asc_def canon_def is_lower_def)

lemma render_plain:
  "render (asc ''Error: API error: 500 Internal Server Error'') =
   asc ''Error: API error: 500 Internal Server Error''"
  by (simp add: render_def escapeHtml_def asc_def)

theorem remote_errors_become_one_message_witness:
  "snd (sendMessageToOpenAI sample_platform sample_secrets status_500
         (sample_session [system_message, question 1] [])) = None \<and>
   chatWindow
     (fst (sendMessageToOpenAI sample_platform sample_secrets status_500
            (sample_session [system_message, question 1] []))) =
     [Div (asc ''msg ai'') (asc ''Error: API error: 500 Internal Server Error'')] \<and>
   conversation
     (fst (sendMessageToOpenAI sample_platform sample_secrets status_500
            (sample_session [system_message, question 1] []))) =
     [system_message, question 1]"
proof -
  let ?st = "sample_session [system_message, question 1] []"
  obtain st' r where s: "sendMessageToOpenAI sample_platform sample_secrets status_500 ?st = (st', r)"
    by (cases "sendMessageToOpenAI sample_platform sample_secrets status_500 ?st")
  have a: "list_all readable (conversation ?st)" by simp
  have b: "list_ex is_system (conversation ?st)" by simp
  have t: "trimConversation (conversation ?st) = Inr [system_message, question 1]"
    by (simp add: trim_fits)
  have f: "call_fails sample_platform sample_secrets status_500 [system_message, question 1]"
    by (simp add: call_fails_def sample_request failing_outcome_def status_500_def)
  have g: "status_500
             \<lparr>url = asc ''https://chat.example.workers.dev'',
              headers = [(asc ''Content-Type'', asc ''application/json'')],
              body = JSON_stringify sample_platform
                       (JObj [(asc ''messages'', JArr [system_message, question 1])])\<rparr> =
           Inr \<lparr>res_ok = False, res_status = 500,
                res_text = Inr (asc ''Internal Server Error''),
                res_json = Inl (SyntaxError (asc ''Unexpected token''))\<rparr>"
    by (simp add: status_500_def)
  note th = remote_errors_become_one_message [OF a b s]
  from th have r: "r = None" by blast
  from th t f have c: "conversation st' = [system_message, question 1]" by blast
  from th t sample_request g
  have "chatWindow st' = chatWindow ?st @
          [Div (asc ''msg ai'')
             (render (friendlyMessage (workerUrl_of sample_secrets)
                (Error (asc ''API error: '' @ decimal 500 @ asc '' '' @ asc ''Internal Server Error''))))]"
    by force
  then have w: "chatWindow st' = [Div (asc ''msg ai'') (asc ''Error: API error: 500 Internal Server Error'')]"
    by (simp add: api_error_500 render_plain)
  from r c w show ?thesis unfolding s by simp
qed

text \<open>
  Claim C10, as the code has it. When the remote call fails before an assistant text is
  found (the request cannot be built, \<^verbatim>\<open>fetch\<close> is rejected, the status is not a
  success, the body is not JSON, or no assistant text is found, with or without a
  provider's error object), the call returns without an error and the session is what
  it was, but for the trim at the start of the call, the one error block in the chat
  window, the send button and the log of requests: no message is added to the
  conversation, and the storage and the name are untouched. The statement does not
  cover the error raised after the push, when the text found cannot be rendered.
\<close>

theorem failed_call_appends_nothing:
  assumes "trimConversation (conversation st) = Inr conv"
    and "call_fails pf sec fetch conv"
    and "sendMessageToOpenAI pf sec fetch st = (st', r)"
  shows "r = None \<and> conversation st' = conv \<and> localStorage st' = localStorage st \<and>
         userName st' = userName st \<and>
         (\<exists>e n. st' = st\<lparr>conversation := conv,
                          chatWindow := chatWindow st @
                            [Div (asc ''msg ai'') (render (friendlyMessage (workerUrl_of sec) e))],
                          sendBtn := enabled (sendBtn st),
                          network := n\<rparr>)"
proof -
  from send_fails [OF assms(1,2)] assms(3) obtain e n where
    s: "st' = st\<lparr>conversation := conv,
                 chatWindow := chatWindow st @
                   [Div (asc ''msg ai'') (render (friendlyMessage (workerUrl_of sec) e))],
                 sendBtn := enabled (sendBtn st),
                 network := n\<rparr>" and r: "r = None"
    by auto
  from s have "conversation st' = conv" "localStorage st' = localStorage st"
    "userName st' = userName st"
    by simp_all
  with s r show ?thesis by blast
qed

theorem failed_call_appends_nothing_witness:
  "snd (sendMessageToOpenAI sample_platform sample_secrets unreachable
         (sample_session [system_message, question 1] [])) = None \<and>
   conversation
     (fst (sendMessageToOpenAI sample_platform sample_secrets unreachable
            (sample_session [system_message, question 1] []))) =
     [system_message, question 1] \<and>
   localStorage
     (fst (sendMessageToOpenAI sample_platform sample_secrets unreachable
            (sample_session [system_message, question 1] []))) =
     sample_storage []"
proof -
  let ?st = "sample_session [system_message, question 1] []"
  obtain st' r where s: "sendMessageToOpenAI sample_platform sample_secrets unreachable ?st = (st', r)"
    by (cases "sendMessageToOpenAI sample_platform sample_secrets unreachable ?st")
  have t: "trimConversation (conversation ?st) = Inr [system_message, question 1]"
    by (simp add: trim_fits)
  have f: "call_fails sample_platform sample_secrets unreachable [system_message, question 1]"
    by (simp add: call_fails_def sample_request failing_outcome_def unreachable_def)
  from failed_call_appends_nothing [OF t f s]
  have "r = None" "conversation st' = [system_message, question 1]"
    "localStorage st' = sample_storage []"
    by simp_all
  then show ?thesis unfolding s by simp
qed

lemma assistant_text_any_shape:
  assumes "get_prop data (asc ''choices'') = Inr (JArr (choice # rest))"
    and "get_prop choice (asc ''message'') = Inr msg"
    and "get_prop msg (asc ''content'') = Inr v"
    and "truthy v"
  shows "assistant_text pf data = Inr v"
proof -
  have n: "\<not> nullish v"
    using assms(4) by (cases v) simp_all
  have c: "opt_prop data (asc ''choices'') = JArr (choice # rest)"
    using assms(1) by (simp add: opt_prop_def)
  have t: "choice_text choice = v"
    using assms(2,3) n by (simp add: choice_text_def opt_prop_def coalesce_def)
  have d: "direct_text pf data = Inr v"
    by (simp add: direct_text_def c t gt_zero_def to_number_def)
  show ?thesis
    using assms(4) by (simp add: assistant_text_def d wrapped_text_def)
qed

lemma appendMessage_not_string:
  "\<forall>s. v \<noteq> JStr s \<Longrightarrow>
   appendMessage r v st = Inl (TypeError (asc ''str.replaceAll is not a function''))"
  by (cases v) (simp_all add: appendMessage_def)

lemma try_block_unrenderable:
  assumes "build_request pf sec (conversation st0) = Inr req"
    and "fetch req = Inr res" and "res_ok res" and "res_json res = Inr data"
    and "assistant_text pf data = Inr v" and "truthy v" and "\<forall>s. v \<noteq> JStr s"
  shows "try_block pf sec fetch st0 =
           (saveState pf
              ((setLoading True st0)
                 \<lparr>network := network st0 @ [req],
                  conversation := conversation st0 @ [mk_message (asc ''assistant'') v]\<rparr>),
            Some (TypeError (asc ''str.replaceAll is not a function'')))"
  using assms(1-6) unfolding try_block_def Let_def
  by (simp add: appendMessage_not_string [OF assms(7)])

lemma worker_unreachable_text:
  "render (friendlyMessage (workerUrl_of sample_secrets)
             (TypeError (asc ''str.replaceAll is not a function''))) =
   asc ''Network error: could not reach the Cloudflare Worker at https://chat.example.workers.dev. Make sure the worker is deployed and that CORS/OPENAI_API_KEY are configured. See console for details.''"
  by (simp add: friendlyMessage_def workerUrl_of_def sample_secrets_def render_def
        escapeHtml_def asc_def)

text \<open>
  Claim C10 as stated fails on one failing outcome: a reply whose text is truthy and not
  a string. The message is pushed and stored before rendering it raises, so the error
  block is shown while the conversation has grown and the stored conversation has been
  rewritten.
\<close>

theorem unrenderable_reply_counterexample:
  "snd (try_block sample_platform sample_secrets (reply_with number_completion)
          (sample_session [system_message, question 1] [])) =
     Some (TypeError (asc ''str.replaceAll is not a function'')) \<and>
   chatWindow
     (fst (sendMessageToOpenAI sample_platform sample_secrets (reply_with number_completion)
            (sample_session [system_message, question 1] []))) =
     [Div (asc ''msg ai'')
        (asc ''Network error: could not reach the Cloudflare Worker at https://chat.example.workers.dev. Make sure the worker is deployed and that CORS/OPENAI_API_KEY are configured. See console for details.'')] \<and>
   conversation
     (fst (sendMessageToOpenAI sample_platform sample_secrets (reply_with number_completion)
            (sample_session [system_message, question 1] []))) =
     [system_message, question 1, mk_message (asc ''assistant'') (JNum (Num 5))] \<and>
   items (localStorage (sample_session [system_message, question 1] []))
     STORAGE_KEYS_conversation = None \<and>
   items
     (localStorage
        (fst (sendMessageToOpenAI sample_platform sample_secrets (reply_with number_completion)
               (sample_session [system_message, question 1] []))))
     STORAGE_KEYS_conversation =
     Some (JSON_stringify sample_platform
             (JArr [system_message, question 1, mk_message (asc ''assistant'') (JNum (Num 5))]))"
proof -
  let ?st = "sample_session [system_message, question 1] []"
  let ?f = "reply_with number_completion"
  let ?conv = "[system_message, question 1]"
  let ?req = "\<lparr>url = asc ''https://chat.example.workers.dev'',
              headers = [(asc ''Content-Type'', asc ''application/json'')],
              body = JSON_stringify sample_platform (JObj [(asc ''messages'', JArr ?conv)])\<rparr>"
  let ?res = "\<lparr>res_ok = True, res_status = 200, res_text = Inr [],
              res_json = Inr number_completion\<rparr>"
  let ?e = "TypeError (asc ''str.replaceAll is not a function'')"
  have t: "trimConversation (conversation ?st) = Inr ?conv"
    by (simp add: trim_fits)
  have a: "assistant_text sample_platform number_completion = Inr (JNum (Num 5))"
    by (rule assistant_text_any_shape
          [where choice = "JObj [(asc ''message'', JObj [(asc ''content'', JNum (Num 5))])]"
             and rest = "[]" and msg = "JObj [(asc ''content'', JNum (Num 5))]"])
       (simp_all add: number_completion_def)
  have b0: "build_request sample_platform sample_secrets (conversation ?st) = Inr ?req"
    by (simp add: sample_request)
  have f: "?f ?req = Inr ?res"
    by (simp add: reply_with_def)
  have t0: "try_block sample_platform sample_secrets ?f ?st =
           (saveState sample_platform
              ((setLoading True ?st)
                 \<lparr>network := network ?st @ [?req],
                  conversation := conversation ?st @ [mk_message (asc ''assistant'') (JNum (Num 5))]\<rparr>),
            Some ?e)"
    using b0 f _ _ a by (rule try_block_unrenderable) simp_all
  have c: "?st\<lparr>conversation := ?conv\<rparr> = ?st"
    by (simp add: sample_session_def)
  have t1: "try_block sample_platform sample_secrets ?f (?st\<lparr>conversation := ?conv\<rparr>) =
           (saveState sample_platform
              ((setLoading True ?st)
                 \<lparr>network := network ?st @ [?req],
                  conversation := conversation ?st @ [mk_message (asc ''assistant'') (JNum (Num 5))]\<rparr>),
            Some ?e)"
    unfolding c by (rule t0)
  have p1: "snd (try_block sample_platform sample_secrets ?f ?st) = Some ?e"
    unfolding t0 by simp
  have p2: "chatWindow (fst (sendMessageToOpenAI sample_platform sample_secrets ?f ?st)) =
              [Div (asc ''msg ai'')
                 (render (friendlyMessage (workerUrl_of sample_secrets) ?e))]"
    unfolding send_unfold [OF t t1] by simp
  have p3: "conversation (fst (sendMessageToOpenAI sample_platform sample_secrets ?f ?st)) =
              [system_message, question 1, mk_message (asc ''assistant'') (JNum (Num 5))]"
    unfolding send_unfold [OF t t1] by simp
  have p4: "items (localStorage ?st) STORAGE_KEYS_conversation = None"
    by (simp add: sample_storage_def)
  have p5: "items (localStorage (fst (sendMessageToOpenAI sample_platform sample_secrets ?f ?st)))
              STORAGE_KEYS_conversation =
            Some (JSON_stringify sample_platform
               (JArr [system_message, question 1, mk_message (asc ''assistant'') (JNum (Num 5))]))"
    unfolding send_unfold [OF t t1]
    using write_items_conversation
      [of "sample_storage []" sample_platform
          "[system_message, question 1, mk_message (asc ''assistant'') (JNum (Num 5))]" "[]"]
    by (simp add: sample_storage_def)
  from p1 p2 [unfolded worker_unreachable_text] p3 p4 p5 show ?thesis
    by (intro conjI)
qed

lemma non_system_append:
  "non_system (xs @ ys) = non_system xs @ non_system ys"
  by (simp add: non_system_def)

lemma write_failure_write_items [simp]:
  "write_failure (write_items pf conv name ls) = write_failure ls"
  by (simp add: write_items_def setItem_def split: option.splits)

text \<open>
  Claim C9. The call trims the live conversation before it builds the request: in a
  session whose conversation holds readable messages and a system message, the
  conversation after the call is the first system message, the last \<open>min 40 k\<close> of the
  \<open>k\<close> non-system messages and the reply if one arrived, so the \<open>k - 40\<close> oldest
  non-system messages are gone from the session itself; the request that was sent was
  built from that trimmed list; and the next \<open>saveState\<close> stores the trimmed
  conversation.
\<close>

theorem trimming_is_permanent:
  assumes "list_all readable (conversation st)" and "list_ex is_system (conversation st)"
    and "sendMessageToOpenAI pf sec fetch st = (st', r)"
  shows "\<exists>sys recent tail.
           List.find is_system (conversation st) = Some sys \<and>
           recent = drop (length (non_system (conversation st)) - 40)
                         (non_system (conversation st)) \<and>
           trimConversation (conversation st) = Inr (sys # recent) \<and>
           conversation st' = sys # recent @ tail \<and>
           (tail = [] \<or> (\<exists>am. tail = [mk_message (asc ''assistant'') am])) \<and>
           non_system (conversation st') = recent @ tail \<and>
           (case build_request pf sec (sys # recent) of
              Inl e \<Rightarrow> network st' = network st
            | Inr req \<Rightarrow> network st' = network st @ [req]) \<and>
           (write_failure (localStorage st') STORAGE_KEYS_conversation
              (JSON_stringify pf (JArr (conversation st'))) = None \<longrightarrow>
            items (localStorage (saveState pf st')) STORAGE_KEYS_conversation =
              Some (JSON_stringify pf (JArr (sys # recent @ tail))))"
proof -
  let ?recent = "drop (length (non_system (conversation st)) - 40) (non_system (conversation st))"
  from trim_well_formed [OF assms(1,2)] obtain sys where
    f: "List.find is_system (conversation st) = Some sys" and
    t: "trimConversation (conversation st) = Inr (sys # ?recent)" and
    s: "is_system sys"
    by auto
  note a = send_any [OF t assms(3)]
  from a obtain tail where
    c: "conversation st' = sys # ?recent @ tail" and
    d: "tail = [] \<or> (\<exists>am. tail = [mk_message (asc ''assistant'') am])"
    by auto
  have "set ?recent \<subseteq> set (non_system (conversation st))"
    by (rule set_drop_subset)
  then have "non_system ?recent = ?recent"
    by (auto simp: non_system_def filter_id_conv)
  moreover have "non_system tail = tail"
    using d by (auto simp: non_system_def is_system_mk_message asc_def)
  ultimately have n: "non_system (conversation st') = ?recent @ tail"
    using s by (simp add: c non_system_append) (simp add: non_system_def)
  have p: "write_failure (localStorage st') STORAGE_KEYS_conversation
              (JSON_stringify pf (JArr (conversation st'))) = None \<longrightarrow>
           items (localStorage (saveState pf st')) STORAGE_KEYS_conversation =
              Some (JSON_stringify pf (JArr (sys # ?recent @ tail)))"
    using write_items_conversation [of "localStorage st'" pf "conversation st'" "userName st'"]
    by (simp add: c)
  from a have q: "case build_request pf sec (sys # ?recent) of
                    Inl e \<Rightarrow> network st' = network st
                  | Inr req \<Rightarrow> network st' = network st @ [req]"
    by simp
  show ?thesis
    by (rule exI [of _ sys], rule exI [of _ ?recent], rule exI [of _ tail])
       (use f t c d n q p in \<open>simp only: simp_thms\<close>)
qed

lemma non_system_questions:
  "non_system (system_message # map question ns) = map question ns"
  by (simp add: non_system_def filter_map o_def)

theorem trimming_is_permanent_witness:
  "take 41 (conversation
     (fst (sendMessageToOpenAI sample_platform sample_secrets (reply_with (completion (asc ''X'')))
            (sample_session (system_message # map question [1..<46]) [])))) =
     system_message # map question [6..<46] \<and>
   network
     (fst (sendMessageToOpenAI sample_platform sample_secrets (reply_with (completion (asc ''X'')))
            (sample_session (system_message # map question [1..<46]) []))) =
     [\<lparr>url = asc ''https://chat.example.workers.dev'',
       headers = [(asc ''Content-Type'', asc ''application/json'')],
       body = JSON_stringify sample_platform
                (JObj [(asc ''messages'', JArr (system_message # map question [6..<46]))])\<rparr>]"
proof -
  let ?st = "sample_session (system_message # map question [1..<46]) []"
  let ?f = "reply_with (completion (asc ''X''))"
  obtain st' r where s: "sendMessageToOpenAI sample_platform sample_secrets ?f ?st = (st', r)"
    by (cases "sendMessageToOpenAI sample_platform sample_secrets ?f ?st")
  have a: "list_all readable (conversation ?st)"
    by (simp add: list_all_iff)
  have b: "list_ex is_system (conversation ?st)"
    by simp
  from trimming_is_permanent [OF a b s] obtain sys recent tail where
    f: "List.find is_system (conversation ?st) = Some sys" and
    c: "recent = drop (length (non_system (conversation ?st)) - 40) (non_system (conversation ?st))" and
    d: "conversation st' = sys # recent @ tail" and
    n: "case build_request sample_platform sample_secrets (sys # recent) of
          Inl e \<Rightarrow> network st' = network ?st
        | Inr req \<Rightarrow> network st' = network ?st @ [req]"
    by blast
  from f have sys: "sys = system_message" by simp
  from c have recent: "recent = map question [6..<46]"
    by (simp add: non_system_questions drop_map)
  from d have "take 41 (conversation st') = system_message # map question [6..<46]"
    by (simp add: sys recent)
  moreover from n have "network st' =
     [\<lparr>url = asc ''https://chat.example.workers.dev'',
       headers = [(asc ''Content-Type'', asc ''application/json'')],
       body = JSON_stringify sample_platform
                (JObj [(asc ''messages'', JArr (system_message # map question [6..<46]))])\<rparr>]"
    by (simp add: sys recent sample_request)
  ultimately show ?thesis unfolding s by simp
qed

section \<open>The submit handler\<close>

lemma js_trim_empty_iff: "js_trim s = [] \<longleftrightarrow> list_all is_ws s"
proof
  assume "js_trim s = []"
  then have "\<forall>x \<in> set (dropWhile is_ws s). is_ws x"
    by (simp add: js_trim_def dropWhile_eq_Nil_conv)
  then have "dropWhile is_ws s = []"
    using hd_dropWhile [of is_ws s] hd_in_set [of "dropWhile is_ws s"] by blast
  then show "list_all is_ws s"
    by (simp add: dropWhile_eq_Nil_conv list_all_iff)
next
  assume "list_all is_ws s"
  then show "js_trim s = []"
    by (auto simp: js_trim_def list_all_iff dest: set_dropWhileD)
qed

lemma submit_blank:
  "js_trim (userInput st) = [] \<Longrightarrow> submit pf sec fetch st = (st, None)"
  by (simp add: submit_def)

lemma submit_turn:
  assumes "js_trim (userInput st) \<noteq> []"
  shows "submit pf sec fetch st =
           sendMessageToOpenAI pf sec fetch (record_turn pf (js_trim (userInput st)) st)"
proof -
  let ?text = "js_trim (userInput st)"
  let ?st3 = "saveState pf (detectAndSaveUserName pf ?text
                (st\<lparr>conversation := conversation st @ [mk_message (asc ''user'') (JStr ?text)]\<rparr>))"
  have "(case latestQuestionEl ?st3 of
           None \<Rightarrow> ?st3\<lparr>chatWindow := chatWindow ?st3 @ [Div (asc ''msg user'') (render ?text)]\<rparr>
         | Some _ \<Rightarrow> ?st3\<lparr>chatWindow := chatWindow ?st3 @ [Div (asc ''msg user'') (render ?text)],
                          latestQuestionEl := Some ?text\<rparr>)\<lparr>userInput := []\<rparr> =
        record_turn pf ?text st"
    unfolding record_turn_def Let_def
    by (cases "latestQuestionEl ?st3") simp_all
  then show ?thesis
    using assms
    by (simp add: submit_def Let_def appendMessage_JStr msg_user split: option.splits)
qed

lemma name_after_nonempty: "name_after r = Some n \<Longrightarrow> n \<noteq> []"
  by (auto simp: name_after_def Let_def split: if_splits list.splits)

lemma first_alternative_nonempty: "first_alternative ks s = Some n \<Longrightarrow> n \<noteq> []"
  by (induction ks) (auto split: option.splits dest: name_after_nonempty)

lemma match_here_nonempty: "match_here s = Some n \<Longrightarrow> n \<noteq> []"
  unfolding match_here_def by (rule first_alternative_nonempty)

lemma match_name_nonempty: "match_name s = Some n \<Longrightarrow> n \<noteq> []"
  by (induction s) (auto split: option.splits dest: match_here_nonempty)

lemma detect_fields [simp]:
  "conversation (detectAndSaveUserName pf text st) = conversation st"
  "chatWindow (detectAndSaveUserName pf text st) = chatWindow st"
  "latestQuestionEl (detectAndSaveUserName pf text st) = latestQuestionEl st"
  "userInput (detectAndSaveUserName pf text st) = userInput st"
  "sendBtn (detectAndSaveUserName pf text st) = sendBtn st"
  "network (detectAndSaveUserName pf text st) = network st"
  by (simp_all add: detectAndSaveUserName_def split: option.splits)

lemma detect_userName:
  "userName (detectAndSaveUserName pf text st) =
     (case match_name text of None \<Rightarrow> userName st | Some n \<Rightarrow> n)"
  by (auto simp: detectAndSaveUserName_def split: option.splits dest: match_name_nonempty)

lemma detect_write_failure [simp]:
  "write_failure (localStorage (detectAndSaveUserName pf text st)) = write_failure (localStorage st)"
  by (simp add: detectAndSaveUserName_def split: option.splits)

lemma record_turn_fields [simp]:
  "conversation (record_turn pf text st) =
     conversation st @ [mk_message (asc ''user'') (JStr text)]"
  "userName (record_turn pf text st) =
     (case match_name text of None \<Rightarrow> userName st | Some n \<Rightarrow> n)"
  "chatWindow (record_turn pf text st) = chatWindow st @ [Div (asc ''msg user'') (render text)]"
  "network (record_turn pf text st) = network st"
  "userInput (record_turn pf text st) = []"
  "sendBtn (record_turn pf text st) = sendBtn st"
  "write_failure (localStorage (record_turn pf text st)) = write_failure (localStorage st)"
  by (simp_all add: record_turn_def Let_def detect_userName split: option.splits)

lemma record_turn_stored_name:
  "write_failure (localStorage st) = (\<lambda>k v. None) \<Longrightarrow>
   items (localStorage (record_turn pf text st)) STORAGE_KEYS_userName =
     Some (userName (record_turn pf text st))"
  by (simp add: record_turn_def Let_def detect_userName write_items_userName split: option.splits)

lemma try_block_storage:
  assumes "try_block pf sec fetch st0 = (st1, r)"
  shows "localStorage st1 = localStorage st0 \<or>
         (\<exists>c. localStorage st1 = write_items pf c (userName st0) (localStorage st0))"
  using assms unfolding try_block_def Let_def
  by (fastforce split: sum.splits if_splits dest: appendMessage_Inr)

lemma send_storage:
  assumes "sendMessageToOpenAI pf sec fetch st = (st', r)"
  shows "userName st' = userName st \<and>
         (localStorage st' = localStorage st \<or>
          (\<exists>c. localStorage st' = write_items pf c (userName st) (localStorage st)))"
proof (cases "trimConversation (conversation st)")
  case (Inl e)
  with assms show ?thesis by (simp add: send_trim_error)
next
  case (Inr conv)
  obtain st1 r1 where t: "try_block pf sec fetch (st\<lparr>conversation := conv\<rparr>) = (st1, r1)"
    by (cases "try_block pf sec fetch (st\<lparr>conversation := conv\<rparr>)")
  from try_block_storage [OF t] try_block_any [OF t] assms
  show ?thesis
    unfolding send_unfold [OF Inr t]
    by (cases r1) auto
qed

text \<open>
  Claim C7. When the text in the input is empty or only whitespace, the handler returns
  at once and the session is exactly what it was: the conversation, the storage, the
  chat window and the log of requests are untouched.
\<close>

theorem blank_input_is_ignored:
  assumes "list_all is_ws (userInput st)"
  shows "submit pf sec fetch st = (st, None)"
  using assms by (simp add: submit_blank js_trim_empty_iff)

theorem blank_input_is_ignored_witness:
  "submit sample_platform sample_secrets unreachable
     (sample_session initial_conversation [0x20, 0x9, 0xA0, 0x20]) =
   (sample_session initial_conversation [0x20, 0x9, 0xA0, 0x20], None)"
proof -
  have "list_all is_ws (userInput (sample_session initial_conversation [0x20, 0x9, 0xA0, 0x20]))"
    by (simp add: is_ws_def)
  then show ?thesis by (rule blank_input_is_ignored)
qed

lemma trim_dana: "js_trim (asc ''Hi, I'm Dana'') = asc ''Hi, I'm Dana''"
  by (simp add: js_trim_def asc_def is_ws_def)

lemma trim_products:
  "js_trim (asc ''What products do you have?'') = asc ''What products do you have?''"
  by (simp add: js_trim_def asc_def is_ws_def)

lemma match_dana: "match_name (asc ''Hi, I'm Dana'') = Some (asc ''Dana'')"
  by (simp add: asc_def match_here_def name_after_def canon_def is_lower_def is_upper_def
        is_letter_def is_name_char_def is_ws_def)

lemma match_products: "match_name (asc ''What products do you have?'') = None"
  by (simp add: asc_def match_here_def name_after_def canon_def is_lower_def is_upper_def
        is_letter_def is_name_char_def is_ws_def)

lemma match_name_Nil: "match_name [] = None"
  by (simp add: match_here_def asc_def)

lemma submit_userName:
  "userName (fst (submit pf sec fetch st)) =
     (case match_name (js_trim (userInput st)) of None \<Rightarrow> userName st | Some n \<Rightarrow> n)"
proof (cases "js_trim (userInput st) = []")
  case True
  then show ?thesis
    by (simp add: submit_blank match_name_Nil del: match_name.simps)
next
  case False
  obtain st' r where s: "sendMessageToOpenAI pf sec fetch
      (record_turn pf (js_trim (userInput st)) st) = (st', r)"
    by (cases "sendMessageToOpenAI pf sec fetch (record_turn pf (js_trim (userInput st)) st)")
  from send_storage [OF s] show ?thesis
    by (simp add: submit_turn [OF False] s)
qed

lemma submit_stored_name:
  assumes "js_trim (userInput st) \<noteq> []" and "write_failure (localStorage st) = (\<lambda>k v. None)"
  shows "items (localStorage (fst (submit pf sec fetch st))) STORAGE_KEYS_userName =
           Some (userName (fst (submit pf sec fetch st)))"
proof -
  let ?st6 = "record_turn pf (js_trim (userInput st)) st"
  obtain st' r where s: "sendMessageToOpenAI pf sec fetch ?st6 = (st', r)"
    by (cases "sendMessageToOpenAI pf sec fetch ?st6")
  have w: "write_failure (localStorage ?st6) = (\<lambda>k v. None)"
    using assms(2) by simp
  have n: "items (localStorage ?st6) STORAGE_KEYS_userName = Some (userName ?st6)"
    using assms(2) by (rule record_turn_stored_name)
  from send_storage [OF s] n w
  have "items (localStorage st') STORAGE_KEYS_userName = Some (userName st')"
    by (auto simp: write_items_userName)
  then show ?thesis
    by (simp add: submit_turn [OF assms(1)] s)
qed

text \<open>
  Claim C8. After the handler has run, the name of the session is group 1 of the leftmost
  match of the name pattern in the trimmed input, and the name it had before when the
  pattern does not match. So the input \<^verbatim>\<open>Hi, I'm Dana\<close> sets the name to \<^verbatim>\<open>Dana\<close>, the
  input \<^verbatim>\<open>What products do you have?\<close> leaves the name as it was, and of two inputs
  that match, submitted one after the other, the name of the second stays. With a
  storage that accepts writes, the stored name is the name of the session.
\<close>

theorem name_is_taken_from_the_last_match:
  "userName (fst (submit pf sec fetch st)) =
     (case match_name (js_trim (userInput st)) of None \<Rightarrow> userName st | Some n \<Rightarrow> n) \<and>
   (userInput st = asc ''Hi, I'm Dana'' \<longrightarrow>
      userName (fst (submit pf sec fetch st)) = asc ''Dana'') \<and>
   (userInput st = asc ''What products do you have?'' \<longrightarrow>
      userName (fst (submit pf sec fetch st)) = userName st) \<and>
   (\<forall>n. match_name (js_trim typed) = Some n \<longrightarrow>
      userName (fst (submit pf sec fetch'
                  ((fst (submit pf sec fetch st))\<lparr>userInput := typed\<rparr>))) = n) \<and>
   (js_trim (userInput st) \<noteq> [] \<longrightarrow> write_failure (localStorage st) = (\<lambda>k v. None) \<longrightarrow>
      items (localStorage (fst (submit pf sec fetch st))) STORAGE_KEYS_userName =
        Some (userName (fst (submit pf sec fetch st))))"
proof (intro conjI impI allI)
  show "userName (fst (submit pf sec fetch st)) =
     (case match_name (js_trim (userInput st)) of None \<Rightarrow> userName st | Some n \<Rightarrow> n)"
    by (rule submit_userName)
next
  assume "userInput st = asc ''Hi, I'm Dana''"
  then show "userName (fst (submit pf sec fetch st)) = asc ''Dana''"
    by (simp add: submit_userName trim_dana match_dana)
next
  assume "userInput st = asc ''What products do you have?''"
  then show "userName (fst (submit pf sec fetch st)) = userName st"
    by (simp add: submit_userName trim_products match_products)
next
  fix n
  assume "match_name (js_trim typed) = Some n"
  then show "userName (fst (submit pf sec fetch'
                  ((fst (submit pf sec fetch st))\<lparr>userInput := typed\<rparr>))) = n"
    by (simp add: submit_userName)
next
  assume "js_trim (userInput st) \<noteq> []" and "write_failure (localStorage st) = (\<lambda>k v. None)"
  then show "items (localStorage (fst (submit pf sec fetch st))) STORAGE_KEYS_userName =
        Some (userName (fst (submit pf sec fetch st)))"
    by (rule submit_stored_name)
qed

lemma trim_eve: "js_trim (asc ''my name is Eve'') = asc ''my name is Eve''"
  by (simp add: js_trim_def asc_def is_ws_def)

lemma match_eve: "match_name (asc ''my name is Eve'') = Some (asc ''Eve'')"
  by (simp add: asc_def match_here_def name_after_def canon_def is_lower_def is_upper_def
        is_letter_def is_name_char_def is_ws_def)

theorem name_is_taken_from_the_last_match_witness:
  "userName (fst (submit sample_platform sample_secrets unreachable
                    (sample_session initial_conversation (asc ''Hi, I'm Dana'')))) = asc ''Dana'' \<and>
   items (localStorage (fst (submit sample_platform sample_secrets unreachable
                    (sample_session initial_conversation (asc ''Hi, I'm Dana'')))))
     STORAGE_KEYS_userName = Some (asc ''Dana'') \<and>
   userName (fst (submit sample_platform sample_secrets unreachable
                    ((fst (submit sample_platform sample_secrets unreachable
                             (sample_session initial_conversation (asc ''Hi, I'm Dana''))))
                       \<lparr>userInput := asc ''my name is Eve''\<rparr>))) = asc ''Eve''"
proof -
  let ?st = "sample_session initial_conversation (asc ''Hi, I'm Dana'')"
  note th = name_is_taken_from_the_last_match
     [of sample_platform sample_secrets unreachable ?st "asc ''my name is Eve''" unreachable]
  have i: "userInput ?st = asc ''Hi, I'm Dana''" by simp
  have t: "js_trim (userInput ?st) \<noteq> []" by (simp add: trim_dana) (simp add: asc_def)
  have w: "write_failure (localStorage ?st) = (\<lambda>k v. None)" by (simp add: sample_storage_def)
  have m: "match_name (js_trim (asc ''my name is Eve'')) = Some (asc ''Eve'')"
    by (simp add: trim_eve match_eve)
  from th i have a: "userName (fst (submit sample_platform sample_secrets unreachable ?st)) = asc ''Dana''"
    by blast
  from th t w have "items (localStorage (fst (submit sample_platform sample_secrets unreachable ?st)))
     STORAGE_KEYS_userName = Some (userName (fst (submit sample_platform sample_secrets unreachable ?st)))"
    by blast
  with a have b: "items (localStorage (fst (submit sample_platform sample_secrets unreachable ?st)))
     STORAGE_KEYS_userName = Some (asc ''Dana'')"
    by simp
  from th m have c: "userName (fst (submit sample_platform sample_secrets unreachable
                    ((fst (submit sample_platform sample_secrets unreachable ?st))
                       \<lparr>userInput := asc ''my name is Eve''\<rparr>))) = asc ''Eve''"
    by blast
  from a b c show ?thesis by blast
qed

lemma find_append_Some:
  "List.find P xs = Some s \<Longrightarrow> List.find P (xs @ ys) = Some s"
  by (induction xs) (auto split: if_splits)

lemma length_split_system:
  "length conv = length (filter is_system conv) + length (non_system conv)"
  by (simp add: non_system_def sum_length_filter_compl)

lemma non_system_user:
  "non_system (conv @ [mk_message (asc ''user'') c]) =
     non_system conv @ [mk_message (asc ''user'') c]"
  by (simp add: non_system_def is_system_mk_message asc_def)

text \<open>
  Claim C1, as the code has it. For a non-empty trimmed input, in a session whose
  conversation holds readable messages and a system message, the handler appends the
  user message to the conversation and then makes the remote call, which trims. It
  returns without an error; afterwards the conversation is the first system message,
  then the last at most 40 of the non-system messages with the user message as the
  newest of them, then the reply if one arrived. So the first element has role system
  and the user message is in the conversation. The conversation is longer than before by
  at least one when it held one system message and fewer than 40 other messages.
\<close>

theorem submit_records_the_turn:
  assumes "js_trim (userInput st) \<noteq> []"
    and "list_all readable (conversation st)" and "list_ex is_system (conversation st)"
    and "submit pf sec fetch st = (st', r)"
  shows "r = None \<and>
         submit pf sec fetch st =
           sendMessageToOpenAI pf sec fetch (record_turn pf (js_trim (userInput st)) st) \<and>
         conversation (record_turn pf (js_trim (userInput st)) st) =
           conversation st @ [mk_message (asc ''user'') (JStr (js_trim (userInput st)))] \<and>
         (\<exists>sys tail.
            List.find is_system (conversation st) = Some sys \<and>
            conversation st' =
              sys # drop (Suc (length (non_system (conversation st))) - 40)
                      (non_system (conversation st) @
                       [mk_message (asc ''user'') (JStr (js_trim (userInput st)))]) @ tail \<and>
            (tail = [] \<or> (\<exists>am. tail = [mk_message (asc ''assistant'') am]))) \<and>
         conversation st' \<noteq> [] \<and> is_system (hd (conversation st')) \<and>
         mk_message (asc ''user'') (JStr (js_trim (userInput st))) \<in> set (conversation st') \<and>
         (length (filter is_system (conversation st)) = 1 \<and>
          length (non_system (conversation st)) < 40 \<longrightarrow>
          length (conversation st) + 1 \<le> length (conversation st'))"
proof -
  let ?text = "js_trim (userInput st)"
  let ?user = "mk_message (asc ''user'') (JStr ?text)"
  let ?st6 = "record_turn pf ?text st"
  let ?others = "non_system (conversation st) @ [?user]"
  let ?recent = "drop (Suc (length (non_system (conversation st))) - 40) ?others"
  have u: "submit pf sec fetch st = sendMessageToOpenAI pf sec fetch ?st6"
    using assms(1) by (rule submit_turn)
  have c6: "conversation ?st6 = conversation st @ [?user]"
    by simp
  have a: "list_all readable (conversation ?st6)"
    using assms(2) by (simp add: readable_mk_message)
  have b: "list_ex is_system (conversation ?st6)"
    using assms(3) by simp
  have n: "non_system (conversation ?st6) = ?others"
    by (simp add: non_system_user)
  from assms(3) have "\<exists>m \<in> set (conversation st). is_system m"
    by (simp add: list_ex_iff)
  then obtain sys where f: "List.find is_system (conversation st) = Some sys" and s: "is_system sys"
    using find_is_system_Some by blast
  have f6: "List.find is_system (conversation ?st6) = Some sys"
    using f by (simp add: find_append_Some)
  from trim_well_formed [OF a b] f6 n
  have t: "trimConversation (conversation ?st6) = Inr (sys # ?recent)"
    by simp
  from assms(4) u have e: "sendMessageToOpenAI pf sec fetch ?st6 = (st', r)"
    by simp
  note g = send_any [OF t e]
  from g have r: "r = None" by simp
  from g obtain tail where
    c: "conversation st' = sys # ?recent @ tail" and
    d: "tail = [] \<or> (\<exists>am. tail = [mk_message (asc ''assistant'') am])"
    by auto
  have l: "?recent \<noteq> [] \<and> last ?recent = ?user"
    by simp
  then have m: "?user \<in> set ?recent"
    using last_in_set by metis
  have h: "conversation st' \<noteq> [] \<and> is_system (hd (conversation st'))"
    using c s by simp
  have k: "length (filter is_system (conversation st)) = 1 \<and>
           length (non_system (conversation st)) < 40 \<longrightarrow>
           length (conversation st) + 1 \<le> length (conversation st')"
    using length_split_system [of "conversation st"] by (auto simp: c)
  have x: "\<exists>sys tail.
            List.find is_system (conversation st) = Some sys \<and>
            conversation st' = sys # ?recent @ tail \<and>
            (tail = [] \<or> (\<exists>am. tail = [mk_message (asc ''assistant'') am]))"
    using f c d by blast
  have y: "?user \<in> set (conversation st')"
    using m by (simp add: c)
  from r u c6 x h y k show ?thesis
    by (simp only: simp_thms)
qed

lemma trim_hello: "js_trim (asc ''Hello'') = asc ''Hello''"
  by (simp add: js_trim_def asc_def is_ws_def)

theorem submit_records_the_turn_witness:
  "snd (submit sample_platform sample_secrets unreachable
          (sample_session initial_conversation (asc ''Hello''))) = None \<and>
   is_system (hd (conversation (fst (submit sample_platform sample_secrets unreachable
          (sample_session initial_conversation (asc ''Hello'')))))) \<and>
   mk_message (asc ''user'') (JStr (asc ''Hello'')) \<in>
     set (conversation (fst (submit sample_platform sample_secrets unreachable
          (sample_session initial_conversation (asc ''Hello''))))) \<and>
   2 \<le> length (conversation (fst (submit sample_platform sample_secrets unreachable
          (sample_session initial_conversation (asc ''Hello'')))))"
proof -
  let ?st = "sample_session initial_conversation (asc ''Hello'')"
  obtain st' r where s: "submit sample_platform sample_secrets unreachable ?st = (st', r)"
    by (cases "submit sample_platform sample_secrets unreachable ?st")
  have t: "js_trim (userInput ?st) \<noteq> []"
    by (simp add: trim_hello) (simp add: asc_def)
  have a: "list_all readable (conversation ?st)"
    by (simp add: initial_conversation_def)
  have b: "list_ex is_system (conversation ?st)"
    by (simp add: initial_conversation_def)
  have c: "length (filter is_system (conversation ?st)) = 1 \<and>
           length (non_system (conversation ?st)) < 40"
    by (simp add: initial_conversation_def non_system_def)
  note th = submit_records_the_turn [OF t a b s]
  from th have "r = None" by blast
  moreover from th have "is_system (hd (conversation st'))" by blast
  moreover from th have "mk_message (asc ''user'') (JStr (asc ''Hello'')) \<in> set (conversation st')"
    by (simp add: trim_hello)
  moreover from th c have "length (conversation ?st) + 1 \<le> length (conversation st')"
    by blast
  then have "2 \<le> length (conversation st')"
    by (simp add: initial_conversation_def)
  ultimately show ?thesis unfolding s by simp
qed

lemma completion_text:
  "x \<noteq> [] \<Longrightarrow> assistant_text pf (completion x) = Inr (JStr x)"
  by (rule assistant_text_shape
        [where choice = "JObj [(asc ''message'', JObj [(asc ''content'', JStr x)])]"
           and rest = "[]" and msg = "JObj [(asc ''content'', JStr x)]"])
     (simp_all add: completion_def)

lemma trim_one_more: "js_trim (asc ''one more question'') = asc ''one more question''"
  by (simp add: js_trim_def asc_def is_ws_def)

text \<open>
  Claim C1 as stated fails once the conversation is at the bound: with the system message
  and 41 other messages (where a session is after any successful turn at the bound), a
  turn that is answered leaves the conversation as long as it was.
\<close>

theorem submit_at_the_bound_counterexample:
  "js_trim (userInput (sample_session (system_message # map question [1..<42])
                         (asc ''one more question''))) \<noteq> [] \<and>
   length (conversation
     (fst (submit sample_platform sample_secrets (reply_with (completion (asc ''X'')))
            (sample_session (system_message # map question [1..<42])
               (asc ''one more question''))))) =
   length (conversation (sample_session (system_message # map question [1..<42])
                           (asc ''one more question'')))"
proof -
  let ?st = "sample_session (system_message # map question [1..<42]) (asc ''one more question'')"
  let ?text = "asc ''one more question''"
  let ?st6 = "record_turn sample_platform ?text ?st"
  let ?f = "reply_with (completion (asc ''X''))"
  have t: "js_trim (userInput ?st) \<noteq> []"
    by (simp add: trim_one_more) (simp add: asc_def)
  have u: "submit sample_platform sample_secrets ?f ?st =
             sendMessageToOpenAI sample_platform sample_secrets ?f ?st6"
    using submit_turn [OF t] by (simp add: trim_one_more)
  have a: "list_all readable (conversation ?st6)"
    by (simp add: list_all_iff readable_mk_message)
  have b: "list_ex is_system (conversation ?st6)"
    by simp
  have n: "length (non_system (conversation ?st6)) = 42"
    by (simp add: non_system_def is_system_mk_message asc_def filter_map o_def)
  from trim_well_formed [OF a b] obtain sys where
    c: "trimConversation (conversation ?st6) =
          Inr (sys # drop (length (non_system (conversation ?st6)) - 40)
                       (non_system (conversation ?st6)))"
    by blast
  let ?conv = "sys # drop (length (non_system (conversation ?st6)) - 40)
                       (non_system (conversation ?st6))"
  have l: "length ?conv = 41"
    using n by simp
  have x: "assistant_text sample_platform (completion (asc ''X'')) = Inr (JStr (asc ''X''))"
    by (rule completion_text) (simp add: asc_def)
  have "conversation (fst (sendMessageToOpenAI sample_platform sample_secrets ?f ?st6)) =
          ?conv @ [mk_message (asc ''assistant'') (JStr (asc ''X''))]"
    by (subst send_replies [where fetch = ?f and conv = ?conv and data = "completion (asc ''X'')"
              and x = "asc ''X''"
              and res = "\<lparr>res_ok = True, res_status = 200, res_text = Inr [],
                            res_json = Inr (completion (asc ''X''))\<rparr>",
            OF c sample_request _ _ _ x])
       (simp_all add: reply_with_def, simp add: asc_def)
  then have "length (conversation (fst (submit sample_platform sample_secrets ?f ?st))) = 42"
    using l by (simp only: u length_append) simp
  with t show ?thesis by simp
qed

section \<open>Restoring the session\<close>




lemma role_is_system_hd: "role_is_system m = Inr b \<Longrightarrow> is_system m = b"
  by (auto simp: is_system_def has_role_def split: sum.splits)


lemma loadState_parse_error:
  assumes "items (localStorage st) STORAGE_KEYS_conversation = Some raw"
    and "JSON_parse pf raw = Inl e"
  shows "conversation (loadState pf st) = conversation st"
  using assms unfolding loadState_def getItem_def Let_def
  by (auto split: sum.splits option.splits)


text \<open>
  Claim C6. When the text stored under the conversation key is not JSON
  (\<^verbatim>\<open>JSON.parse\<close> raises), \<open>loadState\<close>, which has no error result, leaves the
  conversation as it was; at the start of a session that is the fresh conversation
  holding only the system message.
\<close>

theorem malformed_storage_is_ignored:
  assumes "items (localStorage st) STORAGE_KEYS_conversation = Some raw"
    and "JSON_parse pf raw = Inl e"
  shows "conversation (loadState pf st) = conversation st \<and>
         (conversation st = initial_conversation \<longrightarrow>
          conversation (loadState pf st) = [mk_message (asc ''system'') (JStr systemPrompt)])"
  using loadState_parse_error [OF assms]
  by (simp add: initial_conversation_def system_message_def)

lemma sample_parse_error:
  "JSON_parse sample_platform (asc ''{not json'') = Inl (SyntaxError (asc ''Unexpected token''))"
  by (simp add: sample_platform_def sample_texts_def stored_without_system_def
        stored_system_last_def asc_def)

theorem malformed_storage_is_ignored_witness:
  "conversation
     (loadState sample_platform
        ((sample_session initial_conversation [])
           \<lparr>localStorage := sample_storage [(STORAGE_KEYS_conversation, asc ''{not json'')]\<rparr>)) =
   [mk_message (asc ''system'') (JStr systemPrompt)]"
proof -
  let ?st = "(sample_session initial_conversation [])
               \<lparr>localStorage := sample_storage [(STORAGE_KEYS_conversation, asc ''{not json'')]\<rparr>"
  have i: "items (localStorage ?st) STORAGE_KEYS_conversation = Some (asc ''{not json'')"
    by (simp add: sample_storage_def)
  have c: "conversation ?st = initial_conversation"
    by simp
  from malformed_storage_is_ignored [OF i sample_parse_error] c show ?thesis
    by blast
qed






end
